theory Spec2Isabelle
  imports Complex_Main
begin

section \<open>Evaluation script of MetaHDR (eval.py)\<close>

text \<open>
  The script evaluates a meta-learned model in three modes, one after the other:
  single-shot, adaptive with ground-truth ("Debevec") support labels, and adaptive with
  support labels read from precomputed HDRCNN output files. The model below follows
  \<^verbatim>\<open>main\<close> statement by statement. Everything the script calls but does not define
  (torch, sklearn, skimage, the repository's own config, data and model modules) is a
  field of the record \<open>env\<close>; every exception is a value of \<open>error\<close>; every external
  call leaves an \<open>event\<close> in a trace, so that the order of effects can be stated.
  Metric values are Python floats in the source and reals here: rounding is not modelled.
\<close>

subsection \<open>Exceptions\<close>

datatype error =
    TypeError
  | SystemExit
  | AssertionError string
  | ValueError string
  | FileNotFoundError "string list"
  | IndexError
  | ZeroDivisionError
  | Raised string

subsection \<open>Arrays and images\<close>

text \<open>An image is an array with a shape and its values in row-major order.\<close>

record image =
  shape :: "nat list"
  pix :: "real list"

text \<open>
  \<^verbatim>\<open>all_test_data\<close> is an array indexed by scene and exposure; \<open>shape0\<close> and \<open>shape1\<close> are
  \<^verbatim>\<open>all_test_data.shape[0]\<close> and \<^verbatim>\<open>all_test_data.shape[1]\<close>.
\<close>

record ndarray =
  shape0 :: nat
  shape1 :: nat
  img :: "nat \<Rightarrow> nat \<Rightarrow> image"

text \<open>\<^verbatim>\<open>image_set[i, ...]\<close> on the exposures of scene \<open>s\<close>: out of range raises IndexError.\<close>

definition getitem :: "ndarray \<Rightarrow> nat \<Rightarrow> nat \<Rightarrow> error + image" where
  "getitem d s i = (if i < shape1 d then Inr (img d s i) else Inl IndexError)"

text \<open>A decoded image file: its shape and its integer sample values.\<close>

record raw_image =
  raw_shape :: "nat list"
  raw_pix :: "nat list"

text \<open>\<^verbatim>\<open>.astype(np.float64) / 255\<close>\<close>

definition astype_div255 :: "raw_image \<Rightarrow> image" where
  "astype_div255 r = \<lparr>shape = raw_shape r, pix = map (\<lambda>v. real v / 255) (raw_pix r)\<rparr>"

text \<open>
  \<^verbatim>\<open>np.stack\<close> of a list of arrays: raises ValueError on an empty list and when the
  shapes differ.
\<close>

definition np_stack :: "image list \<Rightarrow> error + image list" where
  "np_stack xs =
     (case xs of
        [] \<Rightarrow> Inl (ValueError ''need at least one array to stack'')
      | x # _ \<Rightarrow>
          if list_all (\<lambda>y. shape y = shape x) xs then Inr xs
          else Inl (ValueError ''all input arrays must have the same shape''))"

subsection \<open>File names of the baseline labels\<close>

text \<open>The decimal digits of a natural number, most significant first.\<close>

definition digit_char :: "nat \<Rightarrow> char" where
  "digit_char d = ''0123456789'' ! d"

fun digits10 :: "nat \<Rightarrow> string" where
  "digits10 n =
     (if n < 10 then [digit_char n]
      else digits10 (n div 10) @ [digit_char (n mod 10)])"

declare digits10.simps [simp del]

text \<open>Python's format specification \<^verbatim>\<open>06d\<close> on a non-negative integer.\<close>

definition fmt_06d :: "nat \<Rightarrow> string" where
  "fmt_06d n = replicate (6 - length (digits10 n)) (CHR ''0'') @ digits10 n"

text \<open>Reading a string of decimal digits back.\<close>

definition digit_val :: "char \<Rightarrow> nat" where
  "digit_val c = of_char c - 48"

definition decimal_value :: "string \<Rightarrow> nat" where
  "decimal_value s = foldl (\<lambda>acc c. 10 * acc + digit_val c) 0 s"

text \<open>
  Lines 164 to 171: the index of the label file for support exposure \<open>i\<close> of scene
  \<open>curr_idx\<close>; \<open>n\<close> is \<^verbatim>\<open>all_test_data.shape[0]\<close>.
\<close>

definition image_idx :: "nat \<Rightarrow> nat \<Rightarrow> nat \<Rightarrow> nat" where
  "image_idx curr_idx n i =
     (let image_idx = curr_idx + 1 in
      if i = 1 then image_idx + n
      else if i = 2 then image_idx
      else if i = 3 then image_idx + n * 2
      else image_idx)"

definition label_file :: "nat \<Rightarrow> nat \<Rightarrow> nat \<Rightarrow> string" where
  "label_file curr_idx n i = fmt_06d (image_idx curr_idx n i) @ ''_out.png''"

subsection \<open>The support/query split\<close>

text \<open>\<^verbatim>\<open>np.arange(1, k + 1)\<close>\<close>

definition arange1 :: "int \<Rightarrow> nat list" where
  "arange1 k = [1 ..< nat (k + 1)]"

text \<open>
  \<^verbatim>\<open>train_test_split(arr, test_size=1)\<close> of scikit-learn, a library the script imports.
  It rejects an integer test size that is not smaller than the number of samples;
  otherwise it takes a random permutation \<open>perm\<close> of the positions, the first position
  of the permutation is the test position and the remaining ones are the train
  positions. The permutation is the random draw and is an argument here.
\<close>

definition train_test_split :: "nat list \<Rightarrow> nat list \<Rightarrow> error + (nat list \<times> nat list)" where
  "train_test_split perm arr =
     (let n_samples = length arr; n_test = 1; n_train = n_samples - n_test in
      if n_test \<ge> n_samples
      then Inl (ValueError ''test_size should be smaller than the number of samples'')
      else
        (let ind_test = take n_test perm;
             ind_train = take n_train (drop n_test perm)
         in Inr (map (\<lambda>k. arr ! k) ind_train, map (\<lambda>k. arr ! k) ind_test)))"

subsection \<open>Paths\<close>

text \<open>\<^verbatim>\<open>os.path.join\<close> of two strings (POSIX).\<close>

definition osp_join :: "string \<Rightarrow> string \<Rightarrow> string" where
  "osp_join a b =
     (if b \<noteq> [] \<and> hd b = CHR ''/'' then b
      else if a = [] \<or> last a = CHR ''/'' then a @ b
      else a @ ''/'' @ b)"

text \<open>
  A \<^verbatim>\<open>pathlib.Path\<close> is the list of its components; the operator \<^verbatim>\<open>/\<close> appends
  components.
\<close>

type_synonym path = "string list"

definition load_dir :: "path \<Rightarrow> path" where
  "load_dir script_parent = script_parent @ [''data'', ''LDR-HDR-pair_Dataset'', ''TestOutputs'']"

subsection \<open>Configuration, arguments, calls and events\<close>

record cfg =
  LOSS_FUNC :: string
  NUM_EXPOSURES :: int
  NUM_TASK_TR_ITER :: int
  TASK_LR :: real

record args =
  model_dir :: "string option"
  use_best :: bool
  cfg_path :: "string option"

record checkpoint =
  performance :: real
  epoch :: int
  unet_state_dict :: nat

text \<open>The arguments of one call of \<^verbatim>\<open>evaluate_single_maml\<close> (line 85).\<close>

record single_call =
  s_loss :: string
  input_test_image :: image
  input_test_label :: image
  s_idx :: nat
  s_visualize_dir :: string

text \<open>
  The arguments of one call of \<^verbatim>\<open>evaluate_maml\<close> (lines 131 and 192):
  \<^verbatim>\<open>eval_train\<close> is the pair of \<open>tr_images\<close> and \<open>tr_labels\<close>, \<^verbatim>\<open>eval_test\<close> the pair of
  \<open>ts_images\<close> and \<open>ts_labels\<close>.
\<close>

record maml_call =
  m_loss :: string
  tr_images :: "image list"
  tr_labels :: "image list"
  ts_images :: "image list"
  ts_labels :: "image list"
  m_idx :: nat
  num_iter :: int
  m_visualize_dir :: string

datatype event =
    Print string
  | PrintAvg string real
  | MakeDirs string
  | CreateLogger string
  | LogInfo string
  | LoadCfg "string option"
  | GetLoss string
  | TorchLoad string
  | LoadStateDict nat
  | LoadData int
  | EvalSingle single_call "error + real \<times> real"
  | Split string nat
  | ImRead path
  | EvalMaml maml_call "error + real \<times> real"

text \<open>
  What the script calls and does not define. \<open>makedirs\<close> is \<^verbatim>\<open>os.makedirs\<close> with
  \<^verbatim>\<open>exist_ok=True\<close>, which may still raise. \<open>rng_random dir s i\<close> is the \<open>i\<close>-th number
  that the random generator yields during the split of scene \<open>s\<close> in the mode that
  writes to \<open>dir\<close>: the script passes no seed and every call of the split consumes
  numbers of its own. \<open>files\<close> is the content of the file system as
  \<^verbatim>\<open>skimage.io.imread\<close> decodes it.
\<close>

record env =
  makedirs :: "string \<Rightarrow> error + unit"
  create_logger :: "string \<Rightarrow> error + unit"
  cuda_get_device_name :: "error + string"
  cuda_get_device_properties :: "error + string"
  update_cfg :: "string \<Rightarrow> error + cfg"
  get_cfg_defaults :: cfg
  get_loss_func :: "string \<Rightarrow> error + unit"
  torch_load :: "string \<Rightarrow> error + checkpoint"
  load_state_dict :: "nat \<Rightarrow> error + unit"
  DataGenerator :: "int \<Rightarrow> error + ndarray"
  evaluate_single_maml :: "single_call \<Rightarrow> error + real \<times> real"
  evaluate_maml :: "maml_call \<Rightarrow> error + real \<times> real"
  rng_random :: "string \<Rightarrow> nat \<Rightarrow> nat \<Rightarrow> nat"
  files :: "path \<Rightarrow> raw_image option"
  script_parent :: path

subsection \<open>Sequencing of effects\<close>

text \<open>
  A computation yields an exception or a value, and the events it caused, in order.
\<close>

type_synonym 'a io = "(error + 'a) \<times> event list"

definition done_io :: "'a \<Rightarrow> 'a io" where
  "done_io x = (Inr x, [])"

definition raise_io :: "error \<Rightarrow> 'a io" where
  "raise_io e = (Inl e, [])"

definition emit :: "event \<Rightarrow> unit io" where
  "emit ev = (Inr (), [ev])"

definition call_io :: "event \<Rightarrow> error + 'a \<Rightarrow> 'a io" where
  "call_io ev r = (r, [ev])"

definition lift_io :: "error + 'a \<Rightarrow> 'a io" where
  "lift_io r = (r, [])"

definition then_io :: "'a io \<Rightarrow> ('a \<Rightarrow> 'b io) \<Rightarrow> 'b io" where
  "then_io m f =
     (case m of
        (Inl e, t) \<Rightarrow> (Inl e, t)
      | (Inr x, t) \<Rightarrow> (case f x of (r, t') \<Rightarrow> (r, t @ t')))"

text \<open>A \<^verbatim>\<open>for\<close> loop over a list that updates the local variables \<open>st\<close>.\<close>

fun for_io :: "('a \<Rightarrow> 's \<Rightarrow> 's io) \<Rightarrow> 'a list \<Rightarrow> 's \<Rightarrow> 's io" where
  "for_io body [] st = (Inr st, [])"
| "for_io body (x # xs) st =
     (case body x st of
        (Inl e, t) \<Rightarrow> (Inl e, t)
      | (Inr st', t) \<Rightarrow> (case for_io body xs st' of (r, t') \<Rightarrow> (r, t @ t')))"

text \<open>Division of a Python float by a Python int.\<close>

definition py_truediv :: "real \<Rightarrow> int \<Rightarrow> error + real" where
  "py_truediv x n = (if n = 0 then Inl ZeroDivisionError else Inr (x / of_int n))"

subsection \<open>Local variables of \<^verbatim>\<open>main\<close> that the three modes assign\<close>

record locals =
  eval_single_ssim :: real
  eval_single_psnr :: real
  eval_adaptive_ssim :: real
  eval_adaptive_psnr :: real
  idx :: nat

subsection \<open>Single-shot mode (lines 76 to 93)\<close>

definition call_single :: "env \<Rightarrow> single_call \<Rightarrow> (real \<times> real) io" where
  "call_single e c = (let r = evaluate_single_maml e c in call_io (EvalSingle c r) r)"

text \<open>The body of the inner loop, lines 83 to 89.\<close>

definition single_body ::
  "env \<Rightarrow> string \<Rightarrow> string \<Rightarrow> ndarray \<Rightarrow> nat \<Rightarrow> nat \<Rightarrow> locals \<Rightarrow> locals io" where
  "single_body e loss_func single_dir d i j st =
     then_io (lift_io (getitem d i j)) (\<lambda>image.
     then_io (lift_io (getitem d i 0)) (\<lambda>label.
     then_io (call_single e
        \<lparr>s_loss = loss_func, input_test_image = image, input_test_label = label,
         s_idx = idx st, s_visualize_dir = single_dir\<rparr>) (\<lambda>(test_ssim, test_psnr).
     done_io (st\<lparr>eval_single_ssim := eval_single_ssim st + test_ssim,
                  eval_single_psnr := eval_single_psnr st + test_psnr,
                  idx := idx st + 1\<rparr>))))"

definition single_loops ::
  "env \<Rightarrow> string \<Rightarrow> string \<Rightarrow> ndarray \<Rightarrow> locals \<Rightarrow> locals io" where
  "single_loops e loss_func single_dir d st =
     for_io (\<lambda>i. for_io (\<lambda>j. single_body e loss_func single_dir d i j) [1 ..< shape1 d])
       [0 ..< shape0 d] st"

definition single_mode ::
  "env \<Rightarrow> string \<Rightarrow> string \<Rightarrow> ndarray \<Rightarrow> locals \<Rightarrow> locals io" where
  "single_mode e loss_func single_dir d st0 =
     then_io (emit (Print ''Performing Single-Shot Evaluation'')) (\<lambda>_.
     then_io (single_loops e loss_func single_dir d
        (st0\<lparr>eval_single_ssim := 0, eval_single_psnr := 0, idx := 0\<rparr>)) (\<lambda>st.
     then_io (lift_io (py_truediv (eval_single_ssim st)
        (int (shape0 d) * (int (shape1 d) - 1)))) (\<lambda>ssim.
     then_io (lift_io (py_truediv (eval_single_psnr st)
        (int (shape0 d) * (int (shape1 d) - 1)))) (\<lambda>psnr.
     then_io (emit (PrintAvg ''[Evaluation Results] Average Single-Shot Evaluation SSIM'' ssim)) (\<lambda>_.
     then_io (emit (PrintAvg ''[Evaluation Results] Average Single-Shot Evaluation PSNR'' psnr)) (\<lambda>_.
     done_io (st\<lparr>eval_single_ssim := ssim, eval_single_psnr := psnr\<rparr>)))))))"

subsection \<open>Adaptive modes (lines 95 to 202)\<close>

text \<open>
  The random permutation of the positions that the split asks its generator for. It is
  drawn without replacement: one after the other, a position is taken from those that
  are left, the \<open>i\<close>-th random number deciding which.
\<close>

fun permutation_from :: "(nat \<Rightarrow> nat) \<Rightarrow> nat \<Rightarrow> nat list \<Rightarrow> nat list" where
  "permutation_from r i [] = []"
| "permutation_from r i (x # xs) =
     (let j = r i mod length (x # xs) in
      (x # xs) ! j # permutation_from r (Suc i) (take j (x # xs) @ drop (Suc j) (x # xs)))"

definition rng_permutation :: "env \<Rightarrow> string \<Rightarrow> nat \<Rightarrow> nat \<Rightarrow> nat list" where
  "rng_permutation e dir curr_idx n = permutation_from (rng_random e dir curr_idx) 0 [0 ..< n]"

text \<open>Lines 106 and 161: the split of the exposure indices of one scene.\<close>

definition drawn_split :: "env \<Rightarrow> string \<Rightarrow> nat \<Rightarrow> int \<Rightarrow> error + (nat list \<times> nat list)" where
  "drawn_split e dir curr_idx k =
     (let arr = arange1 k in
      train_test_split (rng_permutation e dir curr_idx (length arr)) arr)"

definition split_io :: "env \<Rightarrow> string \<Rightarrow> nat \<Rightarrow> int \<Rightarrow> (nat list \<times> nat list) io" where
  "split_io e dir curr_idx k = call_io (Split dir curr_idx) (drawn_split e dir curr_idx k)"

text \<open>
  Lines 109 to 111 and 116 to 118 (and 177 to 179): the images at the given exposure
  indices, each paired with exposure 0 of the scene as its label.
\<close>

fun gather :: "ndarray \<Rightarrow> nat \<Rightarrow> nat list \<Rightarrow> error + (image list \<times> image list)" where
  "gather d curr_idx [] = Inr ([], [])"
| "gather d curr_idx (i # is) =
     (case getitem d curr_idx i of
        Inl err \<Rightarrow> Inl err
      | Inr x \<Rightarrow>
          (case getitem d curr_idx 0 of
             Inl err \<Rightarrow> Inl err
           | Inr y \<Rightarrow>
               (case gather d curr_idx is of
                  Inl err \<Rightarrow> Inl err
                | Inr (xs, ys) \<Rightarrow> Inr (x # xs, y # ys))))"

text \<open>\<^verbatim>\<open>skimage.io.imread\<close> of a path.\<close>

definition imread :: "env \<Rightarrow> path \<Rightarrow> raw_image io" where
  "imread e p =
     call_io (ImRead p)
       (case files e p of None \<Rightarrow> Inl (FileNotFoundError p) | Some r \<Rightarrow> Inr r)"

text \<open>
  Lines 163 to 173: the support images of the HDRCNN mode, each paired with the label
  read from the baseline file of its index.
\<close>

fun hdrcnn_gather ::
  "env \<Rightarrow> ndarray \<Rightarrow> nat \<Rightarrow> nat list \<Rightarrow> (image list \<times> image list) io" where
  "hdrcnn_gather e d curr_idx [] = (Inr ([], []), [])"
| "hdrcnn_gather e d curr_idx (i # is) =
     (case getitem d curr_idx i of
        Inl err \<Rightarrow> (Inl err, [])
      | Inr x \<Rightarrow>
          (case imread e (load_dir (script_parent e) @ [label_file curr_idx (shape0 d) i]) of
             (Inl err, t) \<Rightarrow> (Inl err, t)
           | (Inr r, t) \<Rightarrow>
               (case hdrcnn_gather e d curr_idx is of
                  (Inl err, t') \<Rightarrow> (Inl err, t @ t')
                | (Inr (xs, ys), t') \<Rightarrow> (Inr (x # xs, astype_div255 r # ys), t @ t'))))"

text \<open>
  The shape of a stacked array, and \<^verbatim>\<open>np.stack([images, labels])\<close> of two stacked
  arrays, which raises ValueError unless their shapes agree.
\<close>

definition array_shape :: "image list \<Rightarrow> nat list" where
  "array_shape xs = length xs # (case xs of [] \<Rightarrow> [] | x # _ \<Rightarrow> shape x)"

definition np_stack2 :: "image list \<Rightarrow> image list \<Rightarrow> error + unit" where
  "np_stack2 xs ys =
     (if array_shape xs = array_shape ys then Inr ()
      else Inl (ValueError ''all input arrays must have the same shape''))"

definition call_maml :: "env \<Rightarrow> maml_call \<Rightarrow> (real \<times> real) io" where
  "call_maml e c = (let r = evaluate_maml e c in call_io (EvalMaml c r) r)"

text \<open>
  Lines 112 to 135 and, word for word, 174 to 196: from the support lists of a scene
  to the accumulated metrics. \<^verbatim>\<open>cur_batch\<close> holds the one scene \<open>curr_idx\<close>, so the loop
  over it runs once and the outer stacks are stacks of one array.
\<close>

definition adapt_task ::
  "env \<Rightarrow> cfg \<Rightarrow> string \<Rightarrow> string \<Rightarrow> ndarray \<Rightarrow> nat \<Rightarrow> nat list \<Rightarrow>
   image list \<times> image list \<Rightarrow> locals \<Rightarrow> locals io" where
  "adapt_task e c loss_func dir d curr_idx ts cur_tr st =
     then_io (lift_io (np_stack (fst cur_tr))) (\<lambda>tr_images.
     then_io (lift_io (np_stack (snd cur_tr))) (\<lambda>tr_labels.
     then_io (lift_io (gather d curr_idx ts)) (\<lambda>cur_ts.
     then_io (lift_io (np_stack (fst cur_ts))) (\<lambda>ts_images.
     then_io (lift_io (np_stack (snd cur_ts))) (\<lambda>ts_labels.
     then_io (lift_io (np_stack2 tr_images tr_labels)) (\<lambda>_.
     then_io (lift_io (np_stack2 ts_images ts_labels)) (\<lambda>_.
     then_io (call_maml e
        \<lparr>m_loss = loss_func, tr_images = tr_images, tr_labels = tr_labels,
         ts_images = ts_images, ts_labels = ts_labels, m_idx = idx st,
         num_iter = NUM_TASK_TR_ITER c, m_visualize_dir = dir\<rparr>) (\<lambda>(test_ssim, test_psnr).
     done_io (st\<lparr>idx := idx st + 1,
                  eval_adaptive_ssim := eval_adaptive_ssim st + test_ssim,
                  eval_adaptive_psnr := eval_adaptive_psnr st + test_psnr\<rparr>)))))))))"

text \<open>The body of the loop over the scenes in the Debevec mode, lines 101 to 135.\<close>

definition debevec_body ::
  "env \<Rightarrow> cfg \<Rightarrow> string \<Rightarrow> string \<Rightarrow> ndarray \<Rightarrow> nat \<Rightarrow> locals \<Rightarrow> locals io" where
  "debevec_body e c loss_func dir d curr_idx st =
     then_io (split_io e dir curr_idx (NUM_EXPOSURES c)) (\<lambda>(tr, ts).
     then_io (lift_io (gather d curr_idx tr)) (\<lambda>cur_tr.
     adapt_task e c loss_func dir d curr_idx ts cur_tr st))"

text \<open>The body of the loop over the scenes in the HDRCNN mode, lines 156 to 196.\<close>

definition hdrcnn_body ::
  "env \<Rightarrow> cfg \<Rightarrow> string \<Rightarrow> string \<Rightarrow> ndarray \<Rightarrow> nat \<Rightarrow> locals \<Rightarrow> locals io" where
  "hdrcnn_body e c loss_func dir d curr_idx st =
     then_io (split_io e dir curr_idx (NUM_EXPOSURES c)) (\<lambda>(tr, ts).
     then_io (hdrcnn_gather e d curr_idx tr) (\<lambda>cur_tr.
     adapt_task e c loss_func dir d curr_idx ts cur_tr st))"

text \<open>
  Lines 137 to 141 and 198 to 202: the division by the number of scenes and the two
  printed averages; \<open>name\<close> is the mode's name in the printed text.
\<close>

definition adaptive_finish :: "string \<Rightarrow> ndarray \<Rightarrow> locals \<Rightarrow> locals io" where
  "adaptive_finish name d st =
     then_io (lift_io (py_truediv (eval_adaptive_ssim st) (int (shape0 d)))) (\<lambda>ssim.
     then_io (lift_io (py_truediv (eval_adaptive_psnr st) (int (shape0 d)))) (\<lambda>psnr.
     then_io (emit (PrintAvg (''[Evaluation Results] Average '' @ name @ '' Adapted Evaluation SSIM'') ssim)) (\<lambda>_.
     then_io (emit (PrintAvg (''[Evaluation Results] Average '' @ name @ '' Adapted Evaluation PSNR'') psnr)) (\<lambda>_.
     done_io (st\<lparr>eval_adaptive_ssim := ssim, eval_adaptive_psnr := psnr\<rparr>)))))"

definition debevec_mode ::
  "env \<Rightarrow> cfg \<Rightarrow> string \<Rightarrow> string \<Rightarrow> ndarray \<Rightarrow> locals \<Rightarrow> locals io" where
  "debevec_mode e c loss_func dir d st0 =
     then_io (emit (Print ''Performing Adaptive Evaluation using Debevec labels'')) (\<lambda>_.
     then_io (for_io (debevec_body e c loss_func dir d) [0 ..< shape0 d]
        (st0\<lparr>eval_adaptive_ssim := 0, eval_adaptive_psnr := 0, idx := 0\<rparr>)) (\<lambda>st.
     adaptive_finish ''Debevec'' d st))"

definition hdrcnn_mode ::
  "env \<Rightarrow> cfg \<Rightarrow> string \<Rightarrow> string \<Rightarrow> ndarray \<Rightarrow> locals \<Rightarrow> locals io" where
  "hdrcnn_mode e c loss_func dir d st0 =
     then_io (emit (Print ''Performing Adaptive Evaluation using HDRCNN labels'')) (\<lambda>_.
     then_io (for_io (hdrcnn_body e c loss_func dir d) [0 ..< shape0 d]
        (st0\<lparr>eval_adaptive_ssim := 0, eval_adaptive_psnr := 0, idx := 0\<rparr>)) (\<lambda>st.
     adaptive_finish ''HDRCNN'' d st))"

subsection \<open>The script from its start (lines 18 to 74) and as a whole\<close>

definition loss_names :: "string list" where
  "loss_names = [''ExpandNetLoss'', ''HaarLoss'', ''LPIPSLoss'', ''LPIPSLoss_L2'', ''SSIMLoss'']"

definition config_message :: "string \<Rightarrow> string" where
  "config_message name =
     ''[CONFIG] evaluation loss function '' @ [CHR 0x27] @ name @ [CHR 0x27] @ '' not valid''"

text \<open>
  Lines 19 to 38: the output directories and the logger; each \<^verbatim>\<open>os.makedirs\<close> and the
  creation of the logger may raise. A missing \<^verbatim>\<open>--model_dir\<close>
  leaves \<^verbatim>\<open>args.model_dir\<close> at None, and \<^verbatim>\<open>os.path.join\<close> raises TypeError on it.
  The result is the model directory and the three output directories of the modes.
\<close>

definition make_dirs :: "env \<Rightarrow> args \<Rightarrow> (string \<times> string \<times> string \<times> string) io" where
  "make_dirs e a =
     then_io (emit (Print ''--- Evaluating on meta-test set ---'')) (\<lambda>_.
     then_io (case model_dir a of None \<Rightarrow> raise_io TypeError | Some s \<Rightarrow> done_io s)
       (\<lambda>source_directory.
     let evaluation_figure_output_dir = osp_join source_directory ''evaluation_output'';
         single_dir = osp_join evaluation_figure_output_dir ''single'';
         adapt_debevec_dir = osp_join evaluation_figure_output_dir ''adapt_debevec'';
         adapt_hdrcnn_dir = osp_join evaluation_figure_output_dir ''adapt_hdrcnn''
     in
     then_io (call_io (MakeDirs evaluation_figure_output_dir) (makedirs e evaluation_figure_output_dir)) (\<lambda>_.
     then_io (call_io (MakeDirs single_dir) (makedirs e single_dir)) (\<lambda>_.
     then_io (call_io (MakeDirs adapt_debevec_dir) (makedirs e adapt_debevec_dir)) (\<lambda>_.
     then_io (call_io (MakeDirs adapt_hdrcnn_dir) (makedirs e adapt_hdrcnn_dir)) (\<lambda>_.
     then_io (call_io (MakeDirs evaluation_figure_output_dir) (makedirs e evaluation_figure_output_dir)) (\<lambda>_.
     then_io (call_io (CreateLogger evaluation_figure_output_dir)
                (create_logger e evaluation_figure_output_dir)) (\<lambda>_.
     done_io (source_directory, single_dir, adapt_debevec_dir, adapt_hdrcnn_dir)))))))))"

text \<open>Lines 40 and 41: the two log lines about the GPU; either query may raise.\<close>

definition log_gpu :: "env \<Rightarrow> unit io" where
  "log_gpu e =
     then_io (lift_io (cuda_get_device_name e)) (\<lambda>name.
     then_io (emit (LogInfo (''GPU name -> '' @ name))) (\<lambda>_.
     then_io (lift_io (cuda_get_device_properties e)) (\<lambda>feat.
     emit (LogInfo (''GPU feat -> '' @ feat)))))"

text \<open>Lines 44 to 47.\<close>

definition grab_config :: "env \<Rightarrow> args \<Rightarrow> cfg io" where
  "grab_config e a =
     (case cfg_path a of
        Some p \<Rightarrow> call_io (LoadCfg (Some p)) (update_cfg e p)
      | None \<Rightarrow> call_io (LoadCfg None) (Inr (get_cfg_defaults e)))"

text \<open>Lines 50 and 51: the assertion on the loss name, then the lookup of the loss.\<close>

definition grab_loss :: "env \<Rightarrow> cfg \<Rightarrow> string io" where
  "grab_loss e c =
     (if LOSS_FUNC c \<in> set loss_names
      then then_io (call_io (GetLoss (LOSS_FUNC c)) (get_loss_func e (LOSS_FUNC c)))
             (\<lambda>_. done_io (LOSS_FUNC c))
      else raise_io (AssertionError (config_message (LOSS_FUNC c))))"

text \<open>Lines 54 to 57.\<close>

definition model_path :: "string \<Rightarrow> bool \<Rightarrow> string" where
  "model_path source_directory use_best_flag =
     (if use_best_flag then osp_join source_directory ''model_best.pth.tar''
      else osp_join source_directory ''model_last.pth.tar'')"

text \<open>Lines 59 to 69: the checkpoint is read and its weights are put into a new model.\<close>

definition grab_model :: "env \<Rightarrow> string \<Rightarrow> bool \<Rightarrow> unit io" where
  "grab_model e source_directory use_best_flag =
     (let mp = model_path source_directory use_best_flag in
      then_io (call_io (TorchLoad mp) (torch_load e mp)) (\<lambda>ck.
      then_io (emit (Print ''During training: Best Epoch, Best SSIM'')) (\<lambda>_.
      then_io (emit (Print (''Loading pre-trained model from --> '' @ mp))) (\<lambda>_.
      then_io (call_io (LoadStateDict (unet_state_dict ck))
                 (load_state_dict e (unet_state_dict ck))) (\<lambda>_.
      emit (Print (''Successfully loaded pre-trained model from --> '' @ mp)))))))"

text \<open>
  The variables of the modes are unbound before the first mode; each mode assigns its
  own before it reads them, so their values here are never read.
\<close>

definition locals0 :: locals where
  "locals0 = \<lparr>eval_single_ssim = 0, eval_single_psnr = 0,
              eval_adaptive_ssim = 0, eval_adaptive_psnr = 0, idx = 0\<rparr>"

definition main :: "env \<Rightarrow> args \<Rightarrow> unit io" where
  "main e a =
     then_io (make_dirs e a) (\<lambda>(source_directory, single_dir, adapt_debevec_dir, adapt_hdrcnn_dir).
     then_io (log_gpu e) (\<lambda>_.
     then_io (grab_config e a) (\<lambda>c.
     then_io (grab_loss e c) (\<lambda>loss_func.
     then_io (grab_model e source_directory (use_best a)) (\<lambda>_.
     then_io (call_io (LoadData (NUM_EXPOSURES c)) (DataGenerator e (NUM_EXPOSURES c)))
       (\<lambda>all_test_data.
     then_io (single_mode e loss_func single_dir all_test_data locals0) (\<lambda>st.
     then_io (debevec_mode e c loss_func adapt_debevec_dir all_test_data st) (\<lambda>st.
     then_io (hdrcnn_mode e c loss_func adapt_hdrcnn_dir all_test_data st) (\<lambda>_.
     done_io ())))))))))"

subsection \<open>The command line (lines 206 to 214)\<close>

text \<open>Python's \<^verbatim>\<open>bool\<close> on a string, which \<^verbatim>\<open>type=bool\<close> makes argparse apply to the value.\<close>

definition py_bool :: "string \<Rightarrow> bool" where
  "py_bool s = (s \<noteq> [])"

text \<open>
  The three options, each followed by its value, in any order; anything else ends the
  program as argparse does. Abbreviated option names and the form with an equals sign
  are left out.
\<close>

fun parse_from :: "args \<Rightarrow> string list \<Rightarrow> error + args" where
  "parse_from a [] = Inr a"
| "parse_from a [opt] = Inl SystemExit"
| "parse_from a (opt # v # rest) =
     (if opt = ''--model_dir'' then parse_from (a\<lparr>model_dir := Some v\<rparr>) rest
      else if opt = ''--use_best'' then parse_from (a\<lparr>use_best := py_bool v\<rparr>) rest
      else if opt = ''--cfg'' then parse_from (a\<lparr>cfg_path := Some v\<rparr>) rest
      else Inl SystemExit)"

definition parse_args :: "string list \<Rightarrow> error + args" where
  "parse_args argv = parse_from \<lparr>model_dir = None, use_best = True, cfg_path = None\<rparr> argv"

definition script :: "env \<Rightarrow> string list \<Rightarrow> unit io" where
  "script e argv = then_io (lift_io (parse_args argv)) (\<lambda>a. main e a)"

subsection \<open>Reading a run\<close>

text \<open>The path of the baseline label of support exposure \<open>i\<close> of scene \<open>s\<close> (line 172).\<close>

definition label_path :: "env \<Rightarrow> ndarray \<Rightarrow> nat \<Rightarrow> nat \<Rightarrow> path" where
  "label_path e d s i = load_dir (script_parent e) @ [label_file s (shape0 d) i]"

text \<open>The metric pairs that the evaluation calls in a trace returned.\<close>

fun recorded :: "event \<Rightarrow> (real \<times> real) list" where
  "recorded (EvalSingle c (Inr v)) = [v]"
| "recorded (EvalMaml c (Inr v)) = [v]"
| "recorded _ = []"

definition recorded_values :: "event list \<Rightarrow> (real \<times> real) list" where
  "recorded_values t = concat (map recorded t)"

text \<open>The calls of the two evaluation functions in a trace.\<close>

fun single_call_of :: "event \<Rightarrow> single_call list" where
  "single_call_of (EvalSingle c r) = [c]"
| "single_call_of _ = []"

definition single_calls :: "event list \<Rightarrow> single_call list" where
  "single_calls t = concat (map single_call_of t)"

fun maml_call_of :: "event \<Rightarrow> maml_call list" where
  "maml_call_of (EvalMaml c r) = [c]"
| "maml_call_of _ = []"

definition maml_calls :: "event list \<Rightarrow> maml_call list" where
  "maml_calls t = concat (map maml_call_of t)"

text \<open>
  Modelled from the spec: the data generator is not among the sources. The spec's data
  model gives every Scene exactly K + 1 images, the reference at index 0 and the K
  bracketed exposures at the indices 1 to K, where K is \<^verbatim>\<open>NUM_EXPOSURES\<close>.
\<close>

definition scene_invariant :: "int \<Rightarrow> ndarray \<Rightarrow> bool" where
  "scene_invariant k d = (0 \<le> k \<and> int (shape1 d) = k + 1)"

text \<open>The configuration that lines 44 to 47 obtain.\<close>

definition configured :: "env \<Rightarrow> args \<Rightarrow> error + cfg" where
  "configured e a =
     (case cfg_path a of Some p \<Rightarrow> update_cfg e p | None \<Rightarrow> Inr (get_cfg_defaults e))"


subsection \<open>A small test bed\<close>

text \<open>
  A data set of \<open>S\<close> scenes with \<open>E\<close> exposures each, of one-pixel images; label files
  numbered 1 to 3; collaborators that succeed; a generator that yields 0 every time,
  which makes every permutation the identity.
\<close>

definition ex_data :: "nat \<Rightarrow> nat \<Rightarrow> ndarray" where
  "ex_data S E = \<lparr>shape0 = S, shape1 = E,
     img = (\<lambda>s i. \<lparr>shape = [1], pix = [real (10 * s + i)]\<rparr>)\<rparr>"

definition ex_dir :: path where
  "ex_dir = [''repo'', ''data'', ''LDR-HDR-pair_Dataset'', ''TestOutputs'']"

definition ex_files :: "path \<Rightarrow> raw_image option" where
  "ex_files p =
     (if p = ex_dir @ [''000001_out.png''] then Some \<lparr>raw_shape = [1], raw_pix = [51]\<rparr>
      else if p = ex_dir @ [''000002_out.png''] then Some \<lparr>raw_shape = [1], raw_pix = [102]\<rparr>
      else if p = ex_dir @ [''000003_out.png''] then Some \<lparr>raw_shape = [1], raw_pix = [255]\<rparr>
      else None)"

definition ex_cfg :: "string \<Rightarrow> int \<Rightarrow> cfg" where
  "ex_cfg name k = \<lparr>LOSS_FUNC = name, NUM_EXPOSURES = k, NUM_TASK_TR_ITER = 1, TASK_LR = 1\<rparr>"

definition ex_env :: "string \<Rightarrow> int \<Rightarrow> nat \<Rightarrow> env" where
  "ex_env name k S =
     \<lparr>makedirs = (\<lambda>_. Inr ()),
      create_logger = (\<lambda>_. Inr ()),
      cuda_get_device_name = Inr ''gpu'',
      cuda_get_device_properties = Inr ''props'',
      update_cfg = (\<lambda>_. Inr (ex_cfg name k)),
      get_cfg_defaults = ex_cfg name k,
      get_loss_func = (\<lambda>_. Inr ()),
      torch_load = (\<lambda>_. Inr \<lparr>performance = 1, epoch = 1, unet_state_dict = 0\<rparr>),
      load_state_dict = (\<lambda>_. Inr ()),
      DataGenerator = (\<lambda>n. Inr (ex_data S (nat (n + 1)))),
      evaluate_single_maml = (\<lambda>c. Inr (real (s_idx c), 1)),
      evaluate_maml = (\<lambda>c. Inr (real (m_idx c), 2)),
      rng_random = (\<lambda>dir s i. 0),
      files = ex_files,
      script_parent = [''repo'']\<rparr>"


definition ex_args :: args where
  "ex_args = \<lparr>model_dir = Some ''out'', use_best = True, cfg_path = None\<rparr>"

section \<open>Properties\<close>

subsection \<open>Decimal file names\<close>

lemma digit_val_char_of: "d < 10 \<Longrightarrow> digit_val (digit_char d) = d"
proof -
  assume "d < 10"
  then have "d \<in> {0, 1, 2, 3, 4, 5, 6, 7, 8, 9}" by auto
  then show ?thesis by (auto simp: digit_val_def digit_char_def)
qed

lemma decimal_value_snoc: "decimal_value (s @ [c]) = 10 * decimal_value s + digit_val c"
  by (simp add: decimal_value_def)

lemma decimal_value_digits10: "decimal_value (digits10 n) = n"
proof (induction n rule: digits10.induct)
  case (1 n)
  show ?case
  proof (cases "n < 10")
    case True
    then show ?thesis
      by (subst digits10.simps) (simp add: decimal_value_def digit_val_char_of)
  next
    case False
    then have "decimal_value (digits10 (n div 10)) = n div 10" using 1 by simp
    with False show ?thesis
      by (subst digits10.simps) (simp add: decimal_value_snoc digit_val_char_of)
  qed
qed

lemma decimal_value_zeros: "decimal_value (replicate k (CHR ''0'') @ s) = decimal_value s"
  by (induction k) (simp_all add: decimal_value_def digit_val_def)

lemma decimal_value_fmt: "decimal_value (fmt_06d n) = n"
  by (simp add: fmt_06d_def decimal_value_zeros decimal_value_digits10)

lemma length_digits10: "n < 10 ^ k \<Longrightarrow> 0 < k \<Longrightarrow> length (digits10 n) \<le> k"
proof (induction n arbitrary: k rule: digits10.induct)
  case (1 n)
  show ?case
  proof (cases "n < 10")
    case True
    then show ?thesis using 1(3) by (subst digits10.simps) simp
  next
    case False
    obtain k' where k: "k = Suc k'" using 1(3) by (cases k) auto
    have "k' > 0" using False 1(2) k by (cases k') auto
    moreover have "n div 10 < 10 ^ k'" using 1(2) k by (simp add: less_mult_imp_div_less mult.commute)
    ultimately have "length (digits10 (n div 10)) \<le> k'" using 1(1) False by simp
    then show ?thesis using False k by (subst digits10.simps) simp
  qed
qed

lemma length_fmt: "n < 1000000 \<Longrightarrow> length (fmt_06d n) = 6"
  using length_digits10 [of n 6] by (simp add: fmt_06d_def)

lemma length_fmt_ge: "length (fmt_06d n) \<ge> 6"
  by (simp add: fmt_06d_def)

lemma replicate_num: "replicate (numeral k) x = x # replicate (pred_numeral k) x"
  by (simp add: numeral_eq_Suc)

lemmas digits10_num = digits10.simps [of "numeral k" for k]

lemma digits10_small: "n < 10 \<Longrightarrow> digits10 n = [digit_char n]"
  by (simp add: digits10.simps)

lemmas fmt_eval = fmt_06d_def digits10_num digits10_small digit_char_def replicate_num label_file_def image_idx_def

subsection \<open>Sequencing\<close>

lemma then_io_Inr [simp]: "then_io (Inr x, t) f = (case f x of (r, t') \<Rightarrow> (r, t @ t'))"
  by (simp add: then_io_def)

lemma then_io_Inl [simp]: "then_io (Inl err, t) f = (Inl err, t)"
  by (simp add: then_io_def)

lemma then_io_Inr_iff:
  "then_io m f = (Inr y, t) \<longleftrightarrow>
     (\<exists>x t1 t2. m = (Inr x, t1) \<and> f x = (Inr y, t2) \<and> t = t1 @ t2)"
  by (cases m; cases "fst m") (auto simp: then_io_def split: prod.splits sum.splits)

lemma lift_io_Inr_iff [simp]: "lift_io r = (Inr x, t) \<longleftrightarrow> r = Inr x \<and> t = []"
  by (auto simp: lift_io_def)

lemma call_io_Inr_iff [simp]: "call_io ev r = (Inr x, t) \<longleftrightarrow> r = Inr x \<and> t = [ev]"
  by (auto simp: call_io_def)

lemma emit_Inr_iff [simp]: "emit ev = (Inr x, t) \<longleftrightarrow> t = [ev]"
  by (auto simp: emit_def)

lemma done_io_Inr_iff [simp]: "done_io x = (Inr y, t) \<longleftrightarrow> x = y \<and> t = []"
  by (auto simp: done_io_def)

lemma raise_io_not_Inr [simp]: "raise_io err \<noteq> (Inr y, t)"
  by (simp add: raise_io_def)

lemma for_io_Cons_Inr_iff:
  "for_io body (x # xs) st = (Inr st', t) \<longleftrightarrow>
     (\<exists>st1 t1 t2. body x st = (Inr st1, t1) \<and> for_io body xs st1 = (Inr st', t2) \<and> t = t1 @ t2)"
  by (cases "body x st"; cases "fst (body x st)")
     (auto split: prod.splits sum.splits)

lemma for_io_Nil_Inr_iff [simp]: "for_io body [] st = (Inr st', t) \<longleftrightarrow> st' = st \<and> t = []"
  by auto

lemma for_io_acc:
  fixes f :: "'s \<Rightarrow> 'b::monoid_add" and g :: "event list \<Rightarrow> 'b"
  assumes step: "\<And>x st st' t. body x st = (Inr st', t) \<Longrightarrow> f st' = f st + g t"
    and g_Nil: "g [] = 0" and g_app: "\<And>t t'. g (t @ t') = g t + g t'"
  shows "for_io body xs st = (Inr st', t) \<Longrightarrow> f st' = f st + g t"
proof (induction xs arbitrary: st t)
  case Nil
  then show ?case by (simp add: g_Nil)
next
  case (Cons x xs)
  from Cons.prems obtain st1 t1 t2 where
    b: "body x st = (Inr st1, t1)" and r: "for_io body xs st1 = (Inr st', t2)" and t: "t = t1 @ t2"
    unfolding for_io_Cons_Inr_iff by blast
  from step [OF b] Cons.IH [OF r] show ?case
    by (simp add: t g_app add.assoc)
qed

lemma for_io_keep:
  assumes step: "\<And>x st st' t. body x st = (Inr st', t) \<Longrightarrow> f st' = f st"
  shows "for_io body xs st = (Inr st', t) \<Longrightarrow> f st' = f st"
proof (induction xs arbitrary: st t)
  case Nil
  then show ?case by simp
next
  case (Cons x xs)
  from Cons.prems obtain st1 t1 t2 where
    b: "body x st = (Inr st1, t1)" and r: "for_io body xs st1 = (Inr st', t2)"
    unfolding for_io_Cons_Inr_iff by blast
  from step [OF b] Cons.IH [OF r] show ?case by simp
qed

subsection \<open>Gathering images and labels\<close>

lemma np_stack_Inr: "np_stack xs = Inr ys \<Longrightarrow> ys = xs"
  by (auto simp: np_stack_def split: list.splits if_splits)

lemma gather_Inr:
  "gather d s is = Inr (xs, ys) \<Longrightarrow>
     xs = map (img d s) is \<and> ys = map (\<lambda>_. img d s 0) is \<and> (\<forall>i\<in>set is. i < shape1 d)"
  by (induction "is" arbitrary: xs ys)
     (auto simp: getitem_def split: sum.splits if_splits prod.splits)

lemma hdrcnn_gather_Inr:
  "hdrcnn_gather e d s is = (Inr (xs, ys), t) \<Longrightarrow>
     xs = map (img d s) is \<and>
     ys = map (\<lambda>i. astype_div255 (the (files e (label_path e d s i)))) is \<and>
     t = map (\<lambda>i. ImRead (label_path e d s i)) is \<and>
     (\<forall>i\<in>set is. i < shape1 d \<and> files e (label_path e d s i) \<noteq> None)"
  by (induction "is" arbitrary: xs ys t)
     (auto simp: getitem_def imread_def call_io_def label_path_def
           split: sum.splits if_splits prod.splits option.splits)

lemma hdrcnn_gather_missing:
  "i \<in> set is \<Longrightarrow> files e (label_path e d s i) = None \<Longrightarrow>
     \<exists>err t. hdrcnn_gather e d s is = (Inl err, t) \<and>
       (err = IndexError \<or> (\<exists>j\<in>set is. err = FileNotFoundError (label_path e d s j) \<and>
          files e (label_path e d s j) = None))"
  by (induction "is")
     (auto simp: getitem_def imread_def call_io_def label_path_def
           split: sum.splits if_splits prod.splits option.splits)

lemma adapt_task_Inr:
  assumes "adapt_task e c l dir d s ts (xs, ys) st = (Inr st', t)"
  shows "\<exists>v. evaluate_maml e
          \<lparr>m_loss = l, tr_images = xs, tr_labels = ys, ts_images = map (img d s) ts,
           ts_labels = map (\<lambda>_. img d s 0) ts, m_idx = idx st,
           num_iter = NUM_TASK_TR_ITER c, m_visualize_dir = dir\<rparr> = Inr v \<and>
         t = [EvalMaml
          \<lparr>m_loss = l, tr_images = xs, tr_labels = ys, ts_images = map (img d s) ts,
           ts_labels = map (\<lambda>_. img d s 0) ts, m_idx = idx st,
           num_iter = NUM_TASK_TR_ITER c, m_visualize_dir = dir\<rparr> (Inr v)] \<and>
         st' = st\<lparr>idx := idx st + 1,
                  eval_adaptive_ssim := eval_adaptive_ssim st + fst v,
                  eval_adaptive_psnr := eval_adaptive_psnr st + snd v\<rparr>"
  using assms
  by (auto simp: adapt_task_def then_io_Inr_iff call_maml_def Let_def
           dest!: np_stack_Inr gather_Inr split: prod.splits)

subsection \<open>The split\<close>

lemma length_arange1: "length (arange1 k) = nat k"
  by (simp add: arange1_def)

lemma nth_arange1: "p < nat k \<Longrightarrow> arange1 k ! p = Suc p"
  by (simp add: arange1_def)

lemma set_arange1: "set (arange1 k) = {1..nat k}"
  by (auto simp: arange1_def)

lemma train_test_split_small:
  "k < 2 \<Longrightarrow> \<exists>msg. train_test_split perm (arange1 k) = Inl (ValueError msg)"
  by (simp add: train_test_split_def length_arange1 Let_def)

lemma perm_length: "distinct perm \<Longrightarrow> set perm = {0..<n} \<Longrightarrow> length perm = n"
  using distinct_card [of perm] by simp

lemma train_test_split_perm:
  assumes d: "distinct perm" and s: "set perm = {0..<nat k}" and k: "2 \<le> k"
  shows "train_test_split perm (arange1 k) = Inr (map Suc (tl perm), [Suc (hd perm)])"
proof -
  have len: "length perm = nat k" using perm_length [OF d s] .
  then obtain p ps where perm: "perm = p # ps" using k by (cases perm) auto
  have lps: "length ps = nat k - 1" using len perm by simp
  have "\<forall>q\<in>set perm. q < nat k" using s by auto
  then have "map (\<lambda>q. arange1 k ! q) perm = map Suc perm"
    by (intro map_cong) (auto simp: nth_arange1)
  then have "arange1 k ! p = Suc p" "map (\<lambda>q. arange1 k ! q) ps = map Suc ps"
    by (simp_all add: perm)
  then show ?thesis using k lps
    by (simp add: train_test_split_def length_arange1 Let_def perm)
qed

lemma split_partition:
  assumes d: "distinct perm" and s: "set perm = {0..<nat k}"
    and r: "train_test_split perm (arange1 k) = Inr (tr, ts)"
  shows "set tr \<inter> set ts = {} \<and> set tr \<union> set ts = {1..nat k} \<and>
         length ts = 1 \<and> int (length tr) = k - 1 \<and> distinct tr \<and> tr \<noteq> []"
proof -
  have k: "2 \<le> k"
    using r train_test_split_small [of k perm] by (cases "k < 2") auto
  have len: "length perm = nat k" using perm_length [OF d s] .
  then obtain p ps where perm: "perm = p # ps" using k by (cases perm) auto
  from train_test_split_perm [OF d s k] r
  have tr: "tr = map Suc ps" and ts: "ts = [Suc p]" by (simp_all add: perm)
  have "set tr \<union> set ts = Suc ` set perm" by (auto simp: tr ts perm)
  also have "\<dots> = {1..nat k}" unfolding s by (auto simp: image_Suc_atLeastLessThan)
  finally have u: "set tr \<union> set ts = {1..nat k}" .
  have "p \<notin> set ps" "distinct ps" using d perm by auto
  then have "set tr \<inter> set ts = {}" "distinct tr"
    by (auto simp: tr ts distinct_map)
  moreover have "int (length tr) = k - 1" "tr \<noteq> []" using len k by (auto simp: tr perm)
  ultimately show ?thesis using u by (simp add: ts)
qed

section \<open>The claims\<close>

subsection \<open>Evaluating the test bed\<close>

lemmas ex_eval = rng_permutation_def ex_env_def ex_data_def ex_files_def ex_dir_def ex_cfg_def label_path_def load_dir_def
  getitem_def imread_def call_io_def astype_div255_def

text \<open>
  Claim C1. In the HDRCNN mode, whenever the support labels of scene \<open>s\<close> are gathered,
  the file read for a support exposure \<open>i\<close> among 1, 2, 3 has the index \<open>s + 1\<close> plus
  the number of scenes for \<open>i = 1\<close>, plus nothing for \<open>i = 2\<close>, plus twice the number of
  scenes for \<open>i = 3\<close>; its name is that index in decimal, padded with zeros to six
  digits (exactly six below a million), followed by \<^verbatim>\<open>_out.png\<close>.
\<close>

theorem C1_label_file_index:
  assumes "hdrcnn_gather e d s tr = (Inr (xs, ys), t)"
    and "k < length tr" and "tr ! k \<in> {1, 2, 3}"
  shows "image_idx s (shape0 d) (tr ! k) =
           s + 1 + (if tr ! k = 1 then shape0 d else if tr ! k = 2 then 0 else 2 * shape0 d) \<and>
         t ! k = ImRead (load_dir (script_parent e) @
                   [fmt_06d (image_idx s (shape0 d) (tr ! k)) @ ''_out.png'']) \<and>
         decimal_value (fmt_06d (image_idx s (shape0 d) (tr ! k))) = image_idx s (shape0 d) (tr ! k) \<and>
         6 \<le> length (fmt_06d (image_idx s (shape0 d) (tr ! k))) \<and>
         (image_idx s (shape0 d) (tr ! k) < 1000000 \<longrightarrow>
            length (fmt_06d (image_idx s (shape0 d) (tr ! k))) = 6)"
proof -
  from hdrcnn_gather_Inr [OF assms(1)]
  have "t = map (\<lambda>i. ImRead (label_path e d s i)) tr" by simp
  then have "t ! k = ImRead (label_path e d s (tr ! k))" using assms(2) by simp
  moreover have "image_idx s (shape0 d) (tr ! k) =
      s + 1 + (if tr ! k = 1 then shape0 d else if tr ! k = 2 then 0 else 2 * shape0 d)"
    using assms(3) by (auto simp: image_idx_def)
  ultimately show ?thesis
    by (simp add: label_path_def label_file_def decimal_value_fmt length_fmt length_fmt_ge)
qed

lemma ex_gather_31:
  "hdrcnn_gather (ex_env ''SSIMLoss'' 3 1) (ex_data 1 4) 0 [3, 1] =
     (Inr ([\<lparr>shape = [1], pix = [3]\<rparr>, \<lparr>shape = [1], pix = [1]\<rparr>],
           [\<lparr>shape = [1], pix = [1]\<rparr>, \<lparr>shape = [1], pix = [102 / 255]\<rparr>]),
      [ImRead (ex_dir @ [''000003_out.png'']), ImRead (ex_dir @ [''000002_out.png''])])"
  by (simp add: ex_eval fmt_eval)

theorem C1_label_file_index_witness:
  "hdrcnn_gather (ex_env ''SSIMLoss'' 3 1) (ex_data 1 4) 0 [3, 1] =
     (Inr ([\<lparr>shape = [1], pix = [3]\<rparr>, \<lparr>shape = [1], pix = [1]\<rparr>],
           [\<lparr>shape = [1], pix = [1]\<rparr>, \<lparr>shape = [1], pix = [102 / 255]\<rparr>]),
      [ImRead (ex_dir @ [''000003_out.png'']), ImRead (ex_dir @ [''000002_out.png''])]) \<and>
   (1::nat) < length [3, 1 :: nat] \<and> [3, 1 :: nat] ! 1 \<in> {1, 2, 3} \<and>
   image_idx 0 (shape0 (ex_data 1 4)) ([3, 1] ! 1) = 2 \<and>
   [ImRead (ex_dir @ [''000003_out.png'']), ImRead (ex_dir @ [''000002_out.png''])] ! 1 =
     ImRead (load_dir (script_parent (ex_env ''SSIMLoss'' 3 1)) @ [''000002_out.png'']) \<and>
   length (fmt_06d (image_idx 0 (shape0 (ex_data 1 4)) ([3, 1] ! 1))) = 6"
proof -
  have a: "(1::nat) < length [3, 1 :: nat]" by simp
  have b: "[3, 1 :: nat] ! 1 \<in> {1, 2, 3}" by simp
  have c: "image_idx 0 (shape0 (ex_data 1 4)) ([3, 1] ! 1) < 1000000"
    by (simp add: image_idx_def ex_data_def)
  from C1_label_file_index [OF ex_gather_31 a b] c ex_gather_31 a b
  show ?thesis by (simp add: ex_eval fmt_eval)
qed

text \<open>
  Claim C10. In the HDRCNN mode a support exposure index outside 1, 2, 3 gets no offset:
  its label file has the index \<open>s + 1\<close>, the index of exposure 2, so that two such
  support exposures of one scene (or one of them and exposure 2) read the same file and
  get the same label. With four exposures the split can yield such a support set.
\<close>

theorem C10_other_exposures_share_label:
  assumes "hdrcnn_gather e d s tr = (Inr (xs, ys), t)"
    and "j < length tr" and "tr ! j \<notin> {1, 2, 3}"
    and "k < length tr" and "tr ! k = 2 \<or> tr ! k \<notin> {1, 2, 3}"
  shows "image_idx s (shape0 d) (tr ! j) = s + 1 \<and>
         image_idx s (shape0 d) (tr ! j) = image_idx s (shape0 d) 2 \<and>
         t ! j = ImRead (load_dir (script_parent e) @ [fmt_06d (s + 1) @ ''_out.png'']) \<and>
         t ! j = t ! k \<and> ys ! j = ys ! k"
proof -
  from hdrcnn_gather_Inr [OF assms(1)]
  have t: "t = map (\<lambda>i. ImRead (label_path e d s i)) tr"
    and ys: "ys = map (\<lambda>i. astype_div255 (the (files e (label_path e d s i)))) tr"
    by simp_all
  have j: "image_idx s (shape0 d) (tr ! j) = s + 1"
    using assms(3) by (simp add: image_idx_def)
  have k: "image_idx s (shape0 d) (tr ! k) = s + 1"
    using assms(5) by (auto simp: image_idx_def)
  have "label_path e d s (tr ! j) = label_path e d s (tr ! k)"
    by (simp add: label_path_def label_file_def j k)
  moreover have "label_path e d s (tr ! j) = load_dir (script_parent e) @ [fmt_06d (s + 1) @ ''_out.png'']"
    by (simp add: label_path_def label_file_def j)
  ultimately show ?thesis
    using assms(2,4) j by (simp add: t ys image_idx_def)
qed

lemma ex_split_4:
  "split_io (ex_env ''SSIMLoss'' 4 1) ''out/evaluation_output/adapt_hdrcnn'' 0 4 =
     (Inr ([2, 3, 4], [1]), [Split ''out/evaluation_output/adapt_hdrcnn'' 0])"
  by (simp add: split_io_def drawn_split_def train_test_split_def arange1_def rng_permutation_def ex_env_def call_io_def Let_def
        upt_conv_Cons)

lemma ex_gather_234:
  "hdrcnn_gather (ex_env ''SSIMLoss'' 4 1) (ex_data 1 5) 0 [2, 3, 4] =
     (Inr ([\<lparr>shape = [1], pix = [2]\<rparr>, \<lparr>shape = [1], pix = [3]\<rparr>, \<lparr>shape = [1], pix = [4]\<rparr>],
           [\<lparr>shape = [1], pix = [51 / 255]\<rparr>, \<lparr>shape = [1], pix = [1]\<rparr>,
            \<lparr>shape = [1], pix = [51 / 255]\<rparr>]),
      [ImRead (ex_dir @ [''000001_out.png'']), ImRead (ex_dir @ [''000003_out.png'']),
       ImRead (ex_dir @ [''000001_out.png''])])"
  by (simp add: ex_eval fmt_eval)

theorem C10_other_exposures_share_label_witness:
  "split_io (ex_env ''SSIMLoss'' 4 1) ''out/evaluation_output/adapt_hdrcnn'' 0 4 =
     (Inr ([2, 3, 4], [1]), [Split ''out/evaluation_output/adapt_hdrcnn'' 0]) \<and>
   fst (hdrcnn_gather (ex_env ''SSIMLoss'' 4 1) (ex_data 1 5) 0 [2, 3, 4]) =
     Inr ([\<lparr>shape = [1], pix = [2]\<rparr>, \<lparr>shape = [1], pix = [3]\<rparr>, \<lparr>shape = [1], pix = [4]\<rparr>],
          [\<lparr>shape = [1], pix = [51 / 255]\<rparr>, \<lparr>shape = [1], pix = [1]\<rparr>,
           \<lparr>shape = [1], pix = [51 / 255]\<rparr>]) \<and>
   (2::nat) < length [2, 3, 4 :: nat] \<and> [2, 3, 4 :: nat] ! 2 \<notin> {1, 2, 3} \<and>
   (0::nat) < length [2, 3, 4 :: nat] \<and> [2, 3, 4 :: nat] ! 0 = 2 \<and>
   image_idx 0 (shape0 (ex_data 1 5)) ([2, 3, 4] ! 2) = 1 \<and>
   [ImRead (ex_dir @ [''000001_out.png'']), ImRead (ex_dir @ [''000003_out.png'']),
    ImRead (ex_dir @ [''000001_out.png''])] ! 2 =
   [ImRead (ex_dir @ [''000001_out.png'']), ImRead (ex_dir @ [''000003_out.png'']),
    ImRead (ex_dir @ [''000001_out.png''])] ! 0"
proof -
  have a: "(2::nat) < length [2, 3, 4 :: nat]" by simp
  have b: "[2, 3, 4 :: nat] ! 2 \<notin> {1, 2, 3}" by simp
  have c: "(0::nat) < length [2, 3, 4 :: nat]" by simp
  have d: "[2, 3, 4 :: nat] ! 0 = 2 \<or> [2, 3, 4 :: nat] ! 0 \<notin> {1, 2, 3}" by simp
  from C10_other_exposures_share_label [OF ex_gather_234 a b c d] ex_split_4 ex_gather_234
  show ?thesis by simp
qed

lemmas run_eval =
  main_def make_dirs_def call_io_def log_gpu_def grab_config_def grab_loss_def grab_model_def model_path_def
  single_mode_def single_loops_def single_body_def call_single_def
  debevec_mode_def hdrcnn_mode_def debevec_body_def hdrcnn_body_def adapt_task_def adaptive_finish_def
  split_io_def drawn_split_def train_test_split_def arange1_def np_stack_def np_stack2_def array_shape_def
  call_maml_def py_truediv_def osp_join_def emit_def done_io_def raise_io_def lift_io_def
  loss_names_def locals0_def ex_args_def config_message_def Let_def upt_conv_Cons

lemma ex_run_1:
  "main (ex_env ''SSIMLoss'' 1 1) ex_args =
   (Inl (ValueError ''test_size should be smaller than the number of samples''),
    [Print ''--- Evaluating on meta-test set ---'',
     MakeDirs ''out/evaluation_output'',
     MakeDirs ''out/evaluation_output/single'',
     MakeDirs ''out/evaluation_output/adapt_debevec'',
     MakeDirs ''out/evaluation_output/adapt_hdrcnn'',
     MakeDirs ''out/evaluation_output'',
     CreateLogger ''out/evaluation_output'', LogInfo ''GPU name -> gpu'',
     LogInfo ''GPU feat -> props'', LoadCfg None, GetLoss ''SSIMLoss'',
     TorchLoad ''out/model_best.pth.tar'',
     Print ''During training: Best Epoch, Best SSIM'',
     Print ''Loading pre-trained model from --> out/model_best.pth.tar'',
     LoadStateDict 0,
     Print ''Successfully loaded pre-trained model from --> out/model_best.pth.tar'',
     LoadData 1, Print ''Performing Single-Shot Evaluation'',
     EvalSingle
      \<lparr>s_loss = ''SSIMLoss'', input_test_image = \<lparr>shape = [1], pix = [1]\<rparr>,
         input_test_label = \<lparr>shape = [1], pix = [0]\<rparr>, s_idx = 0,
         s_visualize_dir = ''out/evaluation_output/single''\<rparr>
      (Inr (0, 1)),
     PrintAvg ''[Evaluation Results] Average Single-Shot Evaluation SSIM'' 0,
     PrintAvg ''[Evaluation Results] Average Single-Shot Evaluation PSNR'' 1,
     Print ''Performing Adaptive Evaluation using Debevec labels'',
     Split ''out/evaluation_output/adapt_debevec'' 0])"
  by (simp add: run_eval ex_eval)


subsection \<open>The variables a mode does not assign pass through it\<close>

lemma for_io_commute:
  assumes "\<And>x st. body x (u st) = (map_sum id u (fst (body x st)), snd (body x st))"
  shows "for_io body xs (u st) = (map_sum id u (fst (for_io body xs st)), snd (for_io body xs st))"
proof (induction xs arbitrary: st)
  case Nil
  show ?case by simp
next
  case (Cons x xs)
  show ?case
  proof (cases "body x st")
    case (Pair r t)
    then show ?thesis
      using assms [of x st] Cons.IH
      by (cases r) (auto split: prod.splits)
  qed
qed

lemma then_io_commute:
  assumes "m' = (map_sum id u (fst m), snd m)"
    and "\<And>x. f' (u x) = (map_sum id v (fst (f x)), snd (f x))"
  shows "then_io m' f' = (map_sum id v (fst (then_io m f)), snd (then_io m f))"
  using assms by (cases m; cases "fst m") (auto simp: then_io_def split: prod.splits)

lemma single_body_commute:
  "single_body e l dir d i j (st\<lparr>eval_adaptive_ssim := p, eval_adaptive_psnr := q\<rparr>) =
     (map_sum id (\<lambda>s. s\<lparr>eval_adaptive_ssim := p, eval_adaptive_psnr := q\<rparr>)
        (fst (single_body e l dir d i j st)), snd (single_body e l dir d i j st))"
  by (auto simp: single_body_def then_io_def lift_io_def call_single_def call_io_def done_io_def
        Let_def split: sum.splits prod.splits)

lemma single_loops_commute:
  "single_loops e l dir d (st\<lparr>eval_adaptive_ssim := p, eval_adaptive_psnr := q\<rparr>) =
     (map_sum id (\<lambda>s. s\<lparr>eval_adaptive_ssim := p, eval_adaptive_psnr := q\<rparr>)
        (fst (single_loops e l dir d st)), snd (single_loops e l dir d st))"
  unfolding single_loops_def
  by (rule for_io_commute, rule for_io_commute, rule single_body_commute)

lemma single_mode_commute:
  "single_mode e l dir d (st\<lparr>eval_adaptive_ssim := p, eval_adaptive_psnr := q\<rparr>) =
     (map_sum id (\<lambda>s. s\<lparr>eval_adaptive_ssim := p, eval_adaptive_psnr := q\<rparr>)
        (fst (single_mode e l dir d st)), snd (single_mode e l dir d st))"
proof -
  have "single_loops e l dir d
          (st\<lparr>eval_adaptive_ssim := p, eval_adaptive_psnr := q,
              eval_single_ssim := 0, eval_single_psnr := 0, idx := 0\<rparr>) =
        (map_sum id (\<lambda>s. s\<lparr>eval_adaptive_ssim := p, eval_adaptive_psnr := q\<rparr>)
          (fst (single_loops e l dir d (st\<lparr>eval_single_ssim := 0, eval_single_psnr := 0, idx := 0\<rparr>))),
         snd (single_loops e l dir d (st\<lparr>eval_single_ssim := 0, eval_single_psnr := 0, idx := 0\<rparr>)))"
  proof -
    have "st\<lparr>eval_adaptive_ssim := p, eval_adaptive_psnr := q,
              eval_single_ssim := 0, eval_single_psnr := 0, idx := 0\<rparr> =
          st\<lparr>eval_single_ssim := 0, eval_single_psnr := 0, idx := 0,
              eval_adaptive_ssim := p, eval_adaptive_psnr := q\<rparr>"
      by (cases st) simp
    then show ?thesis
      by (simp only: single_loops_commute)
  qed
  then show ?thesis
    by (cases "single_loops e l dir d (st\<lparr>eval_single_ssim := 0, eval_single_psnr := 0, idx := 0\<rparr>)";
        cases "fst (single_loops e l dir d (st\<lparr>eval_single_ssim := 0, eval_single_psnr := 0, idx := 0\<rparr>))")
       (auto simp: single_mode_def emit_def lift_io_def done_io_def py_truediv_def)
qed



lemma then_io_commute_same:
  assumes "\<And>x. f' x = (map_sum id v (fst (f x)), snd (f x))"
  shows "then_io m f' = (map_sum id v (fst (then_io m f)), snd (then_io m f))"
  using assms by (cases m; cases "fst m") (auto simp: then_io_def split: prod.splits)

lemma adapt_task_commute:
  "adapt_task e c l dir d s ts cur_tr (st\<lparr>eval_single_ssim := p, eval_single_psnr := q\<rparr>) =
     (map_sum id (\<lambda>s. s\<lparr>eval_single_ssim := p, eval_single_psnr := q\<rparr>)
        (fst (adapt_task e c l dir d s ts cur_tr st)), snd (adapt_task e c l dir d s ts cur_tr st))"
  unfolding adapt_task_def
  by (intro then_io_commute_same)
     (auto simp: then_io_def call_maml_def call_io_def done_io_def Let_def
           split: sum.splits prod.splits)


lemma debevec_body_commute:
  "debevec_body e c l dir d s (st\<lparr>eval_single_ssim := p, eval_single_psnr := q\<rparr>) =
     (map_sum id (\<lambda>s. s\<lparr>eval_single_ssim := p, eval_single_psnr := q\<rparr>)
        (fst (debevec_body e c l dir d s st)), snd (debevec_body e c l dir d s st))"
  unfolding debevec_body_def
  by (rule then_io_commute_same, simp only: split_beta,
      rule then_io_commute_same, rule adapt_task_commute)

lemma hdrcnn_body_commute:
  "hdrcnn_body e c l dir d s (st\<lparr>eval_single_ssim := p, eval_single_psnr := q\<rparr>) =
     (map_sum id (\<lambda>s. s\<lparr>eval_single_ssim := p, eval_single_psnr := q\<rparr>)
        (fst (hdrcnn_body e c l dir d s st)), snd (hdrcnn_body e c l dir d s st))"
  unfolding hdrcnn_body_def
  by (rule then_io_commute_same, simp only: split_beta,
      rule then_io_commute_same, rule adapt_task_commute)

lemma adaptive_finish_commute:
  "adaptive_finish name d (st\<lparr>eval_single_ssim := p, eval_single_psnr := q\<rparr>) =
     (map_sum id (\<lambda>s. s\<lparr>eval_single_ssim := p, eval_single_psnr := q\<rparr>)
        (fst (adaptive_finish name d st)), snd (adaptive_finish name d st))"
  by (auto simp: adaptive_finish_def emit_def lift_io_def done_io_def py_truediv_def)


lemma adaptive_reset_swap:
  "st\<lparr>eval_single_ssim := p, eval_single_psnr := q,
      eval_adaptive_ssim := 0, eval_adaptive_psnr := 0, idx := 0\<rparr> =
   st\<lparr>eval_adaptive_ssim := 0, eval_adaptive_psnr := 0, idx := 0,
      eval_single_ssim := p, eval_single_psnr := q\<rparr>"
  by (cases st) simp

lemma debevec_mode_commute:
  "debevec_mode e c l dir d (st\<lparr>eval_single_ssim := p, eval_single_psnr := q\<rparr>) =
     (map_sum id (\<lambda>s. s\<lparr>eval_single_ssim := p, eval_single_psnr := q\<rparr>)
        (fst (debevec_mode e c l dir d st)), snd (debevec_mode e c l dir d st))"
  unfolding debevec_mode_def adaptive_reset_swap
  by (rule then_io_commute_same, rule then_io_commute, rule for_io_commute,
      rule debevec_body_commute, rule adaptive_finish_commute)

lemma hdrcnn_mode_commute:
  "hdrcnn_mode e c l dir d (st\<lparr>eval_single_ssim := p, eval_single_psnr := q\<rparr>) =
     (map_sum id (\<lambda>s. s\<lparr>eval_single_ssim := p, eval_single_psnr := q\<rparr>)
        (fst (hdrcnn_mode e c l dir d st)), snd (hdrcnn_mode e c l dir d st))"
  unfolding hdrcnn_mode_def adaptive_reset_swap
  by (rule then_io_commute_same, rule then_io_commute, rule for_io_commute,
      rule hdrcnn_body_commute, rule adaptive_finish_commute)

lemma single_mode_reset:
  "single_mode e l dir d (st\<lparr>eval_single_ssim := x, eval_single_psnr := y, idx := n\<rparr>) =
   single_mode e l dir d st"
  by (simp add: single_mode_def)

lemma debevec_mode_reset:
  "debevec_mode e c l dir d (st\<lparr>eval_adaptive_ssim := x, eval_adaptive_psnr := y, idx := n\<rparr>) =
   debevec_mode e c l dir d st"
  by (simp add: debevec_mode_def)

lemma hdrcnn_mode_reset:
  "hdrcnn_mode e c l dir d (st\<lparr>eval_adaptive_ssim := x, eval_adaptive_psnr := y, idx := n\<rparr>) =
   hdrcnn_mode e c l dir d st"
  by (simp add: hdrcnn_mode_def)


lemma single_mode_any:
  "single_mode e l dir d st' =
     (map_sum id (\<lambda>s. s\<lparr>eval_adaptive_ssim := eval_adaptive_ssim st', eval_adaptive_psnr := eval_adaptive_psnr st'\<rparr>)
        (fst (single_mode e l dir d st)), snd (single_mode e l dir d st))"
proof -
  have eq: "st' = st\<lparr>eval_adaptive_ssim := eval_adaptive_ssim st', eval_adaptive_psnr := eval_adaptive_psnr st',
                     eval_single_ssim := eval_single_ssim st', eval_single_psnr := eval_single_psnr st', idx := idx st'\<rparr>"
    by (cases st, cases st') simp
  have "single_mode e l dir d st' =
        single_mode e l dir d (st\<lparr>eval_adaptive_ssim := eval_adaptive_ssim st', eval_adaptive_psnr := eval_adaptive_psnr st',
                     eval_single_ssim := eval_single_ssim st', eval_single_psnr := eval_single_psnr st', idx := idx st'\<rparr>)"
    using arg_cong [OF eq, of "single_mode e l dir d"] .
  also have "\<dots> = single_mode e l dir d (st\<lparr>eval_adaptive_ssim := eval_adaptive_ssim st', eval_adaptive_psnr := eval_adaptive_psnr st'\<rparr>)"
    by (rule single_mode_reset)
  also have "\<dots> = (map_sum id (\<lambda>s. s\<lparr>eval_adaptive_ssim := eval_adaptive_ssim st', eval_adaptive_psnr := eval_adaptive_psnr st'\<rparr>)
        (fst (single_mode e l dir d st)), snd (single_mode e l dir d st))"
    by (rule single_mode_commute)
  finally show ?thesis .
qed

lemma debevec_mode_any:
  "debevec_mode e c l dir d st' =
     (map_sum id (\<lambda>s. s\<lparr>eval_single_ssim := eval_single_ssim st', eval_single_psnr := eval_single_psnr st'\<rparr>)
        (fst (debevec_mode e c l dir d st)), snd (debevec_mode e c l dir d st))"
proof -
  have eq: "st' = st\<lparr>eval_single_ssim := eval_single_ssim st', eval_single_psnr := eval_single_psnr st',
                     eval_adaptive_ssim := eval_adaptive_ssim st', eval_adaptive_psnr := eval_adaptive_psnr st', idx := idx st'\<rparr>"
    by (cases st, cases st') simp
  have "debevec_mode e c l dir d st' =
        debevec_mode e c l dir d (st\<lparr>eval_single_ssim := eval_single_ssim st', eval_single_psnr := eval_single_psnr st',
                     eval_adaptive_ssim := eval_adaptive_ssim st', eval_adaptive_psnr := eval_adaptive_psnr st', idx := idx st'\<rparr>)"
    using arg_cong [OF eq, of "debevec_mode e c l dir d"] .
  also have "\<dots> = debevec_mode e c l dir d (st\<lparr>eval_single_ssim := eval_single_ssim st', eval_single_psnr := eval_single_psnr st'\<rparr>)"
    by (rule debevec_mode_reset)
  also have "\<dots> = (map_sum id (\<lambda>s. s\<lparr>eval_single_ssim := eval_single_ssim st', eval_single_psnr := eval_single_psnr st'\<rparr>)
        (fst (debevec_mode e c l dir d st)), snd (debevec_mode e c l dir d st))"
    by (rule debevec_mode_commute)
  finally show ?thesis .
qed

lemma hdrcnn_mode_any:
  "hdrcnn_mode e c l dir d st' =
     (map_sum id (\<lambda>s. s\<lparr>eval_single_ssim := eval_single_ssim st', eval_single_psnr := eval_single_psnr st'\<rparr>)
        (fst (hdrcnn_mode e c l dir d st)), snd (hdrcnn_mode e c l dir d st))"
proof -
  have eq: "st' = st\<lparr>eval_single_ssim := eval_single_ssim st', eval_single_psnr := eval_single_psnr st',
                     eval_adaptive_ssim := eval_adaptive_ssim st', eval_adaptive_psnr := eval_adaptive_psnr st', idx := idx st'\<rparr>"
    by (cases st, cases st') simp
  have "hdrcnn_mode e c l dir d st' =
        hdrcnn_mode e c l dir d (st\<lparr>eval_single_ssim := eval_single_ssim st', eval_single_psnr := eval_single_psnr st',
                     eval_adaptive_ssim := eval_adaptive_ssim st', eval_adaptive_psnr := eval_adaptive_psnr st', idx := idx st'\<rparr>)"
    using arg_cong [OF eq, of "hdrcnn_mode e c l dir d"] .
  also have "\<dots> = hdrcnn_mode e c l dir d (st\<lparr>eval_single_ssim := eval_single_ssim st', eval_single_psnr := eval_single_psnr st'\<rparr>)"
    by (rule hdrcnn_mode_reset)
  also have "\<dots> = (map_sum id (\<lambda>s. s\<lparr>eval_single_ssim := eval_single_ssim st', eval_single_psnr := eval_single_psnr st'\<rparr>)
        (fst (hdrcnn_mode e c l dir d st)), snd (hdrcnn_mode e c l dir d st))"
    by (rule hdrcnn_mode_commute)
  finally show ?thesis .
qed


text \<open>
  Whatever values the local variables hold when a mode starts, the mode causes the same
  events and ends with the same accumulators, or with the same error.
\<close>

lemma modes_ignore_incoming_locals:
  "snd (single_mode e l dir d st') = snd (single_mode e l dir d st) \<and>
   map_sum id (\<lambda>s. (eval_single_ssim s, eval_single_psnr s, idx s)) (fst (single_mode e l dir d st')) =
   map_sum id (\<lambda>s. (eval_single_ssim s, eval_single_psnr s, idx s)) (fst (single_mode e l dir d st)) \<and>
   snd (debevec_mode e c l dir' d st') = snd (debevec_mode e c l dir' d st) \<and>
   map_sum id (\<lambda>s. (eval_adaptive_ssim s, eval_adaptive_psnr s, idx s)) (fst (debevec_mode e c l dir' d st')) =
   map_sum id (\<lambda>s. (eval_adaptive_ssim s, eval_adaptive_psnr s, idx s)) (fst (debevec_mode e c l dir' d st)) \<and>
   snd (hdrcnn_mode e c l dir'' d st') = snd (hdrcnn_mode e c l dir'' d st) \<and>
   map_sum id (\<lambda>s. (eval_adaptive_ssim s, eval_adaptive_psnr s, idx s)) (fst (hdrcnn_mode e c l dir'' d st')) =
   map_sum id (\<lambda>s. (eval_adaptive_ssim s, eval_adaptive_psnr s, idx s)) (fst (hdrcnn_mode e c l dir'' d st))"
proof -
  have proj_single: "map_sum id (\<lambda>s. (eval_single_ssim s, eval_single_psnr s, idx s))
      (map_sum id (\<lambda>s. s\<lparr>eval_adaptive_ssim := p, eval_adaptive_psnr := q\<rparr>) r) =
    map_sum id (\<lambda>s. (eval_single_ssim s, eval_single_psnr s, idx s)) r"
    for p q and r :: "error + locals"
    by (cases r) simp_all
  have proj_adaptive: "map_sum id (\<lambda>s. (eval_adaptive_ssim s, eval_adaptive_psnr s, idx s))
      (map_sum id (\<lambda>s. s\<lparr>eval_single_ssim := p, eval_single_psnr := q\<rparr>) r) =
    map_sum id (\<lambda>s. (eval_adaptive_ssim s, eval_adaptive_psnr s, idx s)) r"
    for p q and r :: "error + locals"
    by (cases r) simp_all
  have s1: "fst (single_mode e l dir d st') =
      map_sum id (\<lambda>s. s\<lparr>eval_adaptive_ssim := eval_adaptive_ssim st',
                             eval_adaptive_psnr := eval_adaptive_psnr st'\<rparr>) (fst (single_mode e l dir d st))"
    and s2: "snd (single_mode e l dir d st') = snd (single_mode e l dir d st)"
    using single_mode_any [of e l dir d st' st] by simp_all
  have a1: "fst (debevec_mode e c l dir' d st') =
      map_sum id (\<lambda>s. s\<lparr>eval_single_ssim := eval_single_ssim st',
                             eval_single_psnr := eval_single_psnr st'\<rparr>) (fst (debevec_mode e c l dir' d st))"
    and a2: "snd (debevec_mode e c l dir' d st') = snd (debevec_mode e c l dir' d st)"
    using debevec_mode_any [of e c l dir' d st' st] by simp_all
  have h1: "fst (hdrcnn_mode e c l dir'' d st') =
      map_sum id (\<lambda>s. s\<lparr>eval_single_ssim := eval_single_ssim st',
                             eval_single_psnr := eval_single_psnr st'\<rparr>) (fst (hdrcnn_mode e c l dir'' d st))"
    and h2: "snd (hdrcnn_mode e c l dir'' d st') = snd (hdrcnn_mode e c l dir'' d st)"
    using hdrcnn_mode_any [of e c l dir'' d st' st] by simp_all
  show ?thesis
    by (simp only: s1 s2 a1 a2 h1 h2 proj_single proj_adaptive simp_thms)
qed

lemma ex_run_2:
  "main (ex_env ''SSIMLoss'' 2 1) ex_args =
   (Inr (),
    [Print ''--- Evaluating on meta-test set ---'',
     MakeDirs ''out/evaluation_output'',
     MakeDirs ''out/evaluation_output/single'',
     MakeDirs ''out/evaluation_output/adapt_debevec'',
     MakeDirs ''out/evaluation_output/adapt_hdrcnn'',
     MakeDirs ''out/evaluation_output'',
     CreateLogger ''out/evaluation_output'', LogInfo ''GPU name -> gpu'',
     LogInfo ''GPU feat -> props'', LoadCfg None, GetLoss ''SSIMLoss'',
     TorchLoad ''out/model_best.pth.tar'',
     Print ''During training: Best Epoch, Best SSIM'',
     Print ''Loading pre-trained model from --> out/model_best.pth.tar'',
     LoadStateDict 0,
     Print ''Successfully loaded pre-trained model from --> out/model_best.pth.tar'',
     LoadData 2, Print ''Performing Single-Shot Evaluation'',
     EvalSingle
      \<lparr>s_loss = ''SSIMLoss'', input_test_image = \<lparr>shape = [1], pix = [1]\<rparr>,
         input_test_label = \<lparr>shape = [1], pix = [0]\<rparr>, s_idx = 0,
         s_visualize_dir = ''out/evaluation_output/single''\<rparr>
      (Inr (0, 1)),
     EvalSingle
      \<lparr>s_loss = ''SSIMLoss'', input_test_image = \<lparr>shape = [1], pix = [2]\<rparr>,
         input_test_label = \<lparr>shape = [1], pix = [0]\<rparr>, s_idx = 1,
         s_visualize_dir = ''out/evaluation_output/single''\<rparr>
      (Inr (1, 1)),
     PrintAvg ''[Evaluation Results] Average Single-Shot Evaluation SSIM'' (1 / 2),
     PrintAvg ''[Evaluation Results] Average Single-Shot Evaluation PSNR'' 1,
     Print ''Performing Adaptive Evaluation using Debevec labels'',
     Split ''out/evaluation_output/adapt_debevec'' 0,
     EvalMaml
      \<lparr>m_loss = ''SSIMLoss'', tr_images = [\<lparr>shape = [1], pix = [2]\<rparr>],
         tr_labels = [\<lparr>shape = [1], pix = [0]\<rparr>],
         ts_images = [\<lparr>shape = [1], pix = [1]\<rparr>],
         ts_labels = [\<lparr>shape = [1], pix = [0]\<rparr>], m_idx = 0, num_iter = 1,
         m_visualize_dir = ''out/evaluation_output/adapt_debevec''\<rparr>
      (Inr (0, 2)),
     PrintAvg ''[Evaluation Results] Average Debevec Adapted Evaluation SSIM'' 0,
     PrintAvg ''[Evaluation Results] Average Debevec Adapted Evaluation PSNR'' 2,
     Print ''Performing Adaptive Evaluation using HDRCNN labels'',
     Split ''out/evaluation_output/adapt_hdrcnn'' 0,
     ImRead [''repo'', ''data'', ''LDR-HDR-pair_Dataset'', ''TestOutputs'', ''000001_out.png''],
     EvalMaml
      \<lparr>m_loss = ''SSIMLoss'', tr_images = [\<lparr>shape = [1], pix = [2]\<rparr>],
         tr_labels = [\<lparr>shape = [1], pix = [1 / 5]\<rparr>],
         ts_images = [\<lparr>shape = [1], pix = [1]\<rparr>],
         ts_labels = [\<lparr>shape = [1], pix = [0]\<rparr>], m_idx = 0, num_iter = 1,
         m_visualize_dir = ''out/evaluation_output/adapt_hdrcnn''\<rparr>
      (Inr (0, 2)),
     PrintAvg ''[Evaluation Results] Average HDRCNN Adapted Evaluation SSIM'' 0,
     PrintAvg ''[Evaluation Results] Average HDRCNN Adapted Evaluation PSNR'' 2])"
  by (simp add: run_eval ex_eval fmt_eval)

lemma parse_use_best_nonempty:
  "v \<noteq> [] \<Longrightarrow> parse_args [''--model_dir'', sd, ''--use_best'', v] =
     Inr \<lparr>model_dir = Some sd, use_best = True, cfg_path = None\<rparr>"
  by (simp add: parse_args_def py_bool_def)

lemma grab_model_path:
  "\<exists>r t. grab_model e sd b = (r, TorchLoad (model_path sd b) # t)"
  by (cases "torch_load e (model_path sd b)")
     (auto simp: grab_model_def Let_def call_io_def then_io_def emit_def split: prod.splits sum.splits)

text \<open>
  Claim C9 fails on the code. Line 209 declares the flag with \<^verbatim>\<open>type=bool\<close>, so argparse
  applies \<^verbatim>\<open>bool\<close> to the text of the value, and every non-empty text is true: the
  command line \<^verbatim>\<open>--model_dir out --use_best False\<close> sets the flag to true and the run
  reads the best checkpoint, not the last one.
\<close>

theorem C9_use_best_False_loads_best:
  "parse_args [''--model_dir'', ''out'', ''--use_best'', ''False''] =
     Inr \<lparr>model_dir = Some ''out'', use_best = True, cfg_path = None\<rparr> \<and>
   TorchLoad ''out/model_best.pth.tar'' \<in>
     set (snd (script (ex_env ''SSIMLoss'' 2 1) [''--model_dir'', ''out'', ''--use_best'', ''False''])) \<and>
   TorchLoad ''out/model_last.pth.tar'' \<notin>
     set (snd (script (ex_env ''SSIMLoss'' 2 1) [''--model_dir'', ''out'', ''--use_best'', ''False'']))"
proof -
  have p: "parse_args [''--model_dir'', ''out'', ''--use_best'', ''False''] = Inr ex_args"
    by (simp add: parse_args_def py_bool_def ex_args_def)
  then have run: "script (ex_env ''SSIMLoss'' 2 1) [''--model_dir'', ''out'', ''--use_best'', ''False''] =
      main (ex_env ''SSIMLoss'' 2 1) ex_args"
    by (cases "main (ex_env ''SSIMLoss'' 2 1) ex_args") (simp add: script_def lift_io_def)
  show ?thesis unfolding run ex_run_2 using p
    by (simp add: ex_args_def)
qed

subsection \<open>One iteration of each loop\<close>

lemma single_body_Inr:
  assumes "single_body e l dir d i j st = (Inr st', t)"
  shows "j < shape1 d \<and> 0 < shape1 d \<and>
         (\<exists>v. evaluate_single_maml e
                 \<lparr>s_loss = l, input_test_image = img d i j, input_test_label = img d i 0,
                  s_idx = idx st, s_visualize_dir = dir\<rparr> = Inr v \<and>
              t = [EvalSingle
                 \<lparr>s_loss = l, input_test_image = img d i j, input_test_label = img d i 0,
                  s_idx = idx st, s_visualize_dir = dir\<rparr> (Inr v)] \<and>
              st' = st\<lparr>eval_single_ssim := eval_single_ssim st + fst v,
                       eval_single_psnr := eval_single_psnr st + snd v,
                       idx := idx st + 1\<rparr>)"
  using assms
  by (auto simp: single_body_def then_io_Inr_iff call_single_def getitem_def Let_def
           split: if_splits prod.splits)

lemma debevec_body_Inr:
  assumes "debevec_body e c l dir d s st = (Inr st', t)"
  shows "\<exists>tr ts v. drawn_split e dir s (NUM_EXPOSURES c) = Inr (tr, ts) \<and>
           (\<forall>i\<in>set tr \<union> set ts. i < shape1 d) \<and>
           evaluate_maml e
             \<lparr>m_loss = l, tr_images = map (img d s) tr, tr_labels = map (\<lambda>_. img d s 0) tr,
              ts_images = map (img d s) ts, ts_labels = map (\<lambda>_. img d s 0) ts, m_idx = idx st,
              num_iter = NUM_TASK_TR_ITER c, m_visualize_dir = dir\<rparr> = Inr v \<and>
           t = [Split dir s, EvalMaml
             \<lparr>m_loss = l, tr_images = map (img d s) tr, tr_labels = map (\<lambda>_. img d s 0) tr,
              ts_images = map (img d s) ts, ts_labels = map (\<lambda>_. img d s 0) ts, m_idx = idx st,
              num_iter = NUM_TASK_TR_ITER c, m_visualize_dir = dir\<rparr> (Inr v)] \<and>
           st' = st\<lparr>idx := idx st + 1,
                    eval_adaptive_ssim := eval_adaptive_ssim st + fst v,
                    eval_adaptive_psnr := eval_adaptive_psnr st + snd v\<rparr>"
proof -
  from assms obtain tr ts cur_tr t2 where
    sp: "drawn_split e dir s (NUM_EXPOSURES c) = Inr (tr, ts)" and
    g: "gather d s tr = Inr cur_tr" and
    a: "adapt_task e c l dir d s ts cur_tr st = (Inr st', t2)" and
    t: "t = Split dir s # t2"
    by (auto simp: debevec_body_def then_io_Inr_iff split_io_def)
  obtain xs ys where cur: "cur_tr = (xs, ys)" by (cases cur_tr)
  from gather_Inr [OF g [unfolded cur]]
  have xs: "xs = map (img d s) tr" and ys: "ys = map (\<lambda>_. img d s 0) tr"
    and lt: "\<forall>i\<in>set tr. i < shape1 d" by simp_all
  from a have "\<exists>b. gather d s ts = Inr b"
    by (auto simp: adapt_task_def then_io_Inr_iff)
  then have lt': "\<forall>i\<in>set ts. i < shape1 d"
    using gather_Inr [of d s ts] by (metis surj_pair)
  from adapt_task_Inr [OF a [unfolded cur]] sp lt lt' show ?thesis
    unfolding t xs ys by blast
qed

lemma hdrcnn_body_Inr:
  assumes "hdrcnn_body e c l dir d s st = (Inr st', t)"
  shows "\<exists>tr ts v. drawn_split e dir s (NUM_EXPOSURES c) = Inr (tr, ts) \<and>
           (\<forall>i\<in>set tr \<union> set ts. i < shape1 d) \<and>
           (\<forall>i\<in>set tr. files e (label_path e d s i) \<noteq> None) \<and>
           evaluate_maml e
             \<lparr>m_loss = l, tr_images = map (img d s) tr,
              tr_labels = map (\<lambda>i. astype_div255 (the (files e (label_path e d s i)))) tr,
              ts_images = map (img d s) ts, ts_labels = map (\<lambda>_. img d s 0) ts, m_idx = idx st,
              num_iter = NUM_TASK_TR_ITER c, m_visualize_dir = dir\<rparr> = Inr v \<and>
           t = Split dir s # map (\<lambda>i. ImRead (label_path e d s i)) tr @ [EvalMaml
             \<lparr>m_loss = l, tr_images = map (img d s) tr,
              tr_labels = map (\<lambda>i. astype_div255 (the (files e (label_path e d s i)))) tr,
              ts_images = map (img d s) ts, ts_labels = map (\<lambda>_. img d s 0) ts, m_idx = idx st,
              num_iter = NUM_TASK_TR_ITER c, m_visualize_dir = dir\<rparr> (Inr v)] \<and>
           st' = st\<lparr>idx := idx st + 1,
                    eval_adaptive_ssim := eval_adaptive_ssim st + fst v,
                    eval_adaptive_psnr := eval_adaptive_psnr st + snd v\<rparr>"
proof -
  from assms obtain tr ts cur_tr t1 t2 where
    sp: "drawn_split e dir s (NUM_EXPOSURES c) = Inr (tr, ts)" and
    g: "hdrcnn_gather e d s tr = (Inr cur_tr, t1)" and
    a: "adapt_task e c l dir d s ts cur_tr st = (Inr st', t2)" and
    t: "t = Split dir s # t1 @ t2"
    by (auto simp: hdrcnn_body_def then_io_Inr_iff split_io_def)
  obtain xs ys where cur: "cur_tr = (xs, ys)" by (cases cur_tr)
  from hdrcnn_gather_Inr [OF g [unfolded cur]]
  have xs: "xs = map (img d s) tr"
    and ys: "ys = map (\<lambda>i. astype_div255 (the (files e (label_path e d s i)))) tr"
    and t1: "t1 = map (\<lambda>i. ImRead (label_path e d s i)) tr"
    and lt: "\<forall>i\<in>set tr. i < shape1 d \<and> files e (label_path e d s i) \<noteq> None" by simp_all
  from a have "\<exists>b. gather d s ts = Inr b"
    by (auto simp: adapt_task_def then_io_Inr_iff)
  then have lt': "\<forall>i\<in>set ts. i < shape1 d"
    using gather_Inr [of d s ts] by (metis surj_pair)
  from adapt_task_Inr [OF a [unfolded cur]] sp lt lt' show ?thesis
    unfolding t t1 xs ys by auto
qed

lemma for_io_fails:
  assumes "x \<in> set xs" and "\<And>st. \<exists>err t. body x st = (Inl err, t)"
  shows "\<exists>err t. for_io body xs st = (Inl err, t)"
  using assms(1)
proof (induction xs arbitrary: st)
  case Nil
  then show ?case by simp
next
  case (Cons y ys)
  show ?case
  proof (cases "body y st")
    case (Pair r t)
    show ?thesis
    proof (cases r)
      case (Inl err)
      then show ?thesis using Pair by simp
    next
      case (Inr st1)
      with Pair assms(2) [of st] have "x \<noteq> y" by auto
      then have "x \<in> set ys" using Cons.prems by simp
      from Cons.IH [OF this, of st1] obtain err t' where "for_io body ys st1 = (Inl err, t')"
        by blast
      then show ?thesis using Pair Inr by simp
    qed
  qed
qed

lemma hdrcnn_gather_events:
  "ev \<in> set (snd (hdrcnn_gather e d s is)) \<Longrightarrow> \<exists>p. ev = ImRead p"
  by (induction "is" arbitrary: ev)
     (auto simp: getitem_def imread_def call_io_def split: sum.splits option.splits prod.splits if_splits)

lemma maml_calls_no_eval:
  "(\<And>ev. ev \<in> set t \<Longrightarrow> maml_call_of ev = []) \<Longrightarrow> maml_calls t = []"
  by (induction t) (auto simp: maml_calls_def)

lemma hdrcnn_gather_no_calls: "maml_calls (snd (hdrcnn_gather e d s is)) = []"
  by (rule maml_calls_no_eval) (auto dest: hdrcnn_gather_events)

lemma astype_div255_range:
  "\<forall>v\<in>set (raw_pix r). v \<le> 255 \<Longrightarrow> \<forall>x\<in>set (pix (astype_div255 r)). 0 \<le> x \<and> x \<le> 1"
  by (auto simp: astype_div255_def)

lemma hdrcnn_body_missing:
  assumes sp: "drawn_split e dir s (NUM_EXPOSURES c) = Inr (tr, ts)"
    and i: "i \<in> set tr" and f: "files e (label_path e d s i) = None"
  shows "\<exists>err t. hdrcnn_body e c l dir d s st = (Inl err, t) \<and> maml_calls t = [] \<and>
           (err = IndexError \<or> (\<exists>j\<in>set tr. err = FileNotFoundError (label_path e d s j) \<and>
              files e (label_path e d s j) = None))"
proof -
  from hdrcnn_gather_missing [OF i f] obtain err t1 where
    g: "hdrcnn_gather e d s tr = (Inl err, t1)" and
    err: "err = IndexError \<or> (\<exists>j\<in>set tr. err = FileNotFoundError (label_path e d s j) \<and>
              files e (label_path e d s j) = None)" by blast
  have "maml_calls t1 = []" using hdrcnn_gather_no_calls [of e d s tr] g by simp
  then have "hdrcnn_body e c l dir d s st = (Inl err, Split dir s # t1) \<and>
             maml_calls (Split dir s # t1) = []"
    using sp g by (simp add: hdrcnn_body_def split_io_def call_io_def maml_calls_def)
  with err show ?thesis by blast
qed

lemma hdrcnn_mode_fails:
  assumes "s < shape0 d" and "\<And>st. \<exists>err t. hdrcnn_body e c l dir d s st = (Inl err, t)"
  shows "\<exists>err t. hdrcnn_mode e c l dir d st = (Inl err, t)"
proof -
  have "s \<in> set [0 ..< shape0 d]" using assms(1) by simp
  from for_io_fails [of s "[0 ..< shape0 d]" "hdrcnn_body e c l dir d", OF this assms(2)]
  obtain err t where "for_io (hdrcnn_body e c l dir d) [0 ..< shape0 d]
      (st\<lparr>eval_adaptive_ssim := 0, eval_adaptive_psnr := 0, idx := 0\<rparr>) = (Inl err, t)"
    by blast
  then show ?thesis by (simp add: hdrcnn_mode_def emit_def)
qed


text \<open>
  Claim C7. In the HDRCNN mode, whenever the iteration for a scene succeeds, every support
  label handed to \<^verbatim>\<open>evaluate_maml\<close> is the content of the file of its computed index
  with every value divided by 255 (so values up to 255 land in the unit interval), and
  that file exists. If the file of some support exposure of a scene is absent, the
  iteration for that scene raises before any evaluation call, whatever the local
  variables hold, with the error of the first failing read (\<^verbatim>\<open>imread\<close>'s error for a
  missing file, or the index error of an exposure the data does not have); the mode then
  ends with an error and no label is put in the place of the missing one.
\<close>

theorem C7_labels_normalised_or_failure:
  "(hdrcnn_body e c l dir d s st = (Inr st', t) \<longrightarrow>
      (\<exists>tr ts call v. drawn_split e dir s (NUM_EXPOSURES c) = Inr (tr, ts) \<and>
         maml_calls t = [call] \<and> evaluate_maml e call = Inr v \<and>
         length (tr_labels call) = length tr \<and>
         (\<forall>k<length tr. \<exists>r. files e (label_path e d s (tr ! k)) = Some r \<and>
            shape (tr_labels call ! k) = raw_shape r \<and>
            pix (tr_labels call ! k) = map (\<lambda>v. real v / 255) (raw_pix r) \<and>
            ((\<forall>v\<in>set (raw_pix r). v \<le> 255) \<longrightarrow>
               (\<forall>x\<in>set (pix (tr_labels call ! k)). 0 \<le> x \<and> x \<le> 1))))) \<and>
   (s < shape0 d \<and> drawn_split e dir s (NUM_EXPOSURES c) = Inr (tr', ts') \<and> i \<in> set tr' \<and>
    files e (label_path e d s i) = None \<longrightarrow>
      (\<forall>st1. \<exists>err t1. hdrcnn_body e c l dir d s st1 = (Inl err, t1) \<and> maml_calls t1 = [] \<and>
          (err = IndexError \<or>
           (\<exists>j\<in>set tr'. err = FileNotFoundError (label_path e d s j) \<and>
              files e (label_path e d s j) = None))) \<and>
      (\<exists>err t2. hdrcnn_mode e c l dir d st = (Inl err, t2)))"
proof (intro conjI impI)
  assume ok: "hdrcnn_body e c l dir d s st = (Inr st', t)"
  from hdrcnn_body_Inr [OF ok] obtain tr ts v where
    sp: "drawn_split e dir s (NUM_EXPOSURES c) = Inr (tr, ts)" and
    fs: "\<forall>i\<in>set tr. files e (label_path e d s i) \<noteq> None" and
    ev: "evaluate_maml e
             \<lparr>m_loss = l, tr_images = map (img d s) tr,
              tr_labels = map (\<lambda>i. astype_div255 (the (files e (label_path e d s i)))) tr,
              ts_images = map (img d s) ts, ts_labels = map (\<lambda>_. img d s 0) ts, m_idx = idx st,
              num_iter = NUM_TASK_TR_ITER c, m_visualize_dir = dir\<rparr> = Inr v" and
    t: "t = Split dir s # map (\<lambda>i. ImRead (label_path e d s i)) tr @ [EvalMaml
             \<lparr>m_loss = l, tr_images = map (img d s) tr,
              tr_labels = map (\<lambda>i. astype_div255 (the (files e (label_path e d s i)))) tr,
              ts_images = map (img d s) ts, ts_labels = map (\<lambda>_. img d s 0) ts, m_idx = idx st,
              num_iter = NUM_TASK_TR_ITER c, m_visualize_dir = dir\<rparr> (Inr v)]"
    by blast
  let ?call = "\<lparr>m_loss = l, tr_images = map (img d s) tr,
              tr_labels = map (\<lambda>i. astype_div255 (the (files e (label_path e d s i)))) tr,
              ts_images = map (img d s) ts, ts_labels = map (\<lambda>_. img d s 0) ts, m_idx = idx st,
              num_iter = NUM_TASK_TR_ITER c, m_visualize_dir = dir\<rparr>"
  have "maml_calls (map (\<lambda>i. ImRead (label_path e d s i)) tr) = []"
    by (rule maml_calls_no_eval) auto
  then have calls: "maml_calls t = [?call]"
    by (simp add: t maml_calls_def)
  have each: "\<exists>r. files e (label_path e d s (tr ! k)) = Some r \<and>
            shape (tr_labels ?call ! k) = raw_shape r \<and>
            pix (tr_labels ?call ! k) = map (\<lambda>v. real v / 255) (raw_pix r) \<and>
            ((\<forall>v\<in>set (raw_pix r). v \<le> 255) \<longrightarrow>
               (\<forall>x\<in>set (pix (tr_labels ?call ! k)). 0 \<le> x \<and> x \<le> 1))" if k: "k < length tr" for k
  proof -
    from fs k obtain r where r: "files e (label_path e d s (tr ! k)) = Some r" by fastforce
    have lab: "tr_labels ?call ! k = astype_div255 r" using k r by simp
    show ?thesis
      unfolding lab using r astype_div255_range [of r] by (simp add: astype_div255_def)
  qed
  show "\<exists>tr ts call v. drawn_split e dir s (NUM_EXPOSURES c) = Inr (tr, ts) \<and>
         maml_calls t = [call] \<and> evaluate_maml e call = Inr v \<and>
         length (tr_labels call) = length tr \<and>
         (\<forall>k<length tr. \<exists>r. files e (label_path e d s (tr ! k)) = Some r \<and>
            shape (tr_labels call ! k) = raw_shape r \<and>
            pix (tr_labels call ! k) = map (\<lambda>v. real v / 255) (raw_pix r) \<and>
            ((\<forall>v\<in>set (raw_pix r). v \<le> 255) \<longrightarrow>
               (\<forall>x\<in>set (pix (tr_labels call ! k)). 0 \<le> x \<and> x \<le> 1)))"
    apply (rule exI [of _ tr], rule exI [of _ ts], rule exI [of _ ?call], rule exI [of _ v])
    using sp calls ev each by simp
next
  assume h: "s < shape0 d \<and> drawn_split e dir s (NUM_EXPOSURES c) = Inr (tr', ts') \<and> i \<in> set tr' \<and>
    files e (label_path e d s i) = None"
  then show "\<forall>st1. \<exists>err t1. hdrcnn_body e c l dir d s st1 = (Inl err, t1) \<and> maml_calls t1 = [] \<and>
          (err = IndexError \<or>
           (\<exists>j\<in>set tr'. err = FileNotFoundError (label_path e d s j) \<and>
              files e (label_path e d s j) = None))"
    using hdrcnn_body_missing [of e dir s c tr' ts' i d l] by blast
next
  assume h: "s < shape0 d \<and> drawn_split e dir s (NUM_EXPOSURES c) = Inr (tr', ts') \<and> i \<in> set tr' \<and>
    files e (label_path e d s i) = None"
  then have "\<And>st1. \<exists>err t1. hdrcnn_body e c l dir d s st1 = (Inl err, t1)"
    using hdrcnn_body_missing [of e dir s c tr' ts' i d l] by blast
  with h show "\<exists>err t2. hdrcnn_mode e c l dir d st = (Inl err, t2)"
    using hdrcnn_mode_fails [of s d e c l dir st] by blast
qed


lemma ex_hdrcnn_body_ok:
  "hdrcnn_body (ex_env ''SSIMLoss'' 2 1) (ex_cfg ''SSIMLoss'' 2) ''SSIMLoss'' ''h'' (ex_data 1 3) 0 locals0 =
     (Inr (locals0\<lparr>idx := 1, eval_adaptive_ssim := 0, eval_adaptive_psnr := 2\<rparr>),
      [Split ''h'' 0, ImRead (ex_dir @ [''000001_out.png'']),
       EvalMaml
        \<lparr>m_loss = ''SSIMLoss'', tr_images = [\<lparr>shape = [1], pix = [2]\<rparr>],
         tr_labels = [\<lparr>shape = [1], pix = [1 / 5]\<rparr>],
         ts_images = [\<lparr>shape = [1], pix = [1]\<rparr>],
         ts_labels = [\<lparr>shape = [1], pix = [0]\<rparr>], m_idx = 0, num_iter = 1,
         m_visualize_dir = ''h''\<rparr> (Inr (0, 2))])"
  by (simp add: run_eval ex_eval fmt_eval)

lemma ex_missing_file:
  "0 < shape0 (ex_data 2 4) \<and>
   drawn_split (ex_env ''SSIMLoss'' 3 2) ''h'' 0 (NUM_EXPOSURES (ex_cfg ''SSIMLoss'' 3)) = Inr ([2, 3], [1]) \<and>
   3 \<in> set [2, 3 :: nat] \<and>
   files (ex_env ''SSIMLoss'' 3 2) (label_path (ex_env ''SSIMLoss'' 3 2) (ex_data 2 4) 0 3) = None"
  by (simp add: run_eval ex_eval fmt_eval)

theorem C7_labels_normalised_or_failure_witness:
  "hdrcnn_body (ex_env ''SSIMLoss'' 2 1) (ex_cfg ''SSIMLoss'' 2) ''SSIMLoss'' ''h'' (ex_data 1 3) 0 locals0 =
     (Inr (locals0\<lparr>idx := 1, eval_adaptive_ssim := 0, eval_adaptive_psnr := 2\<rparr>),
      [Split ''h'' 0, ImRead (ex_dir @ [''000001_out.png'']),
       EvalMaml
        \<lparr>m_loss = ''SSIMLoss'', tr_images = [\<lparr>shape = [1], pix = [2]\<rparr>],
         tr_labels = [\<lparr>shape = [1], pix = [1 / 5]\<rparr>],
         ts_images = [\<lparr>shape = [1], pix = [1]\<rparr>],
         ts_labels = [\<lparr>shape = [1], pix = [0]\<rparr>], m_idx = 0, num_iter = 1,
         m_visualize_dir = ''h''\<rparr> (Inr (0, 2))]) \<and>
   (\<exists>tr ts call v.
      drawn_split (ex_env ''SSIMLoss'' 2 1) ''h'' 0 (NUM_EXPOSURES (ex_cfg ''SSIMLoss'' 2)) = Inr (tr, ts) \<and>
      evaluate_maml (ex_env ''SSIMLoss'' 2 1) call = Inr v \<and> length (tr_labels call) = length tr) \<and>
   (0 < shape0 (ex_data 2 4) \<and>
    drawn_split (ex_env ''SSIMLoss'' 3 2) ''h'' 0 (NUM_EXPOSURES (ex_cfg ''SSIMLoss'' 3)) = Inr ([2, 3], [1]) \<and>
    3 \<in> set [2, 3 :: nat] \<and>
    files (ex_env ''SSIMLoss'' 3 2) (label_path (ex_env ''SSIMLoss'' 3 2) (ex_data 2 4) 0 3) = None) \<and>
   (\<exists>err t2. hdrcnn_mode (ex_env ''SSIMLoss'' 3 2) (ex_cfg ''SSIMLoss'' 3) ''SSIMLoss'' ''h''
       (ex_data 2 4) locals0 = (Inl err, t2))"
proof -
  note a = C7_labels_normalised_or_failure
    [of "ex_env ''SSIMLoss'' 2 1" "ex_cfg ''SSIMLoss'' 2" "''SSIMLoss''" "''h''" "ex_data 1 3" 0 locals0,
     THEN conjunct1, rule_format, OF ex_hdrcnn_body_ok]
  note b = C7_labels_normalised_or_failure
    [of "ex_env ''SSIMLoss'' 3 2" "ex_cfg ''SSIMLoss'' 3" "''SSIMLoss''" "''h''" "ex_data 2 4" 0 locals0
        _ _ "[2, 3]" "[1]" 3,
     THEN conjunct2, rule_format, OF ex_missing_file]
  from a b ex_hdrcnn_body_ok ex_missing_file show ?thesis by blast
qed

subsection \<open>The drawn permutation\<close>

lemma remove_nth_distinct:
  assumes "distinct pool" and "j < length pool"
  shows "distinct (take j pool @ drop (Suc j) pool) \<and>
         set (take j pool @ drop (Suc j) pool) = set pool - {pool ! j}"
proof -
  have eq: "pool = take j pool @ pool ! j # drop (Suc j) pool"
    using assms(2) by (rule id_take_nth_drop)
  have d: "distinct (take j pool @ pool ! j # drop (Suc j) pool)"
    using assms(1) eq by simp
  then have "distinct (take j pool @ drop (Suc j) pool)" by auto
  moreover have "pool ! j \<notin> set (take j pool @ drop (Suc j) pool)" using d by auto
  moreover have "set pool = insert (pool ! j) (set (take j pool @ drop (Suc j) pool))"
    by (subst eq) auto
  ultimately show ?thesis by auto
qed

lemma permutation_from_perm:
  "distinct pool \<Longrightarrow>
     distinct (permutation_from r i pool) \<and> set (permutation_from r i pool) = set pool"
proof (induction r i pool rule: permutation_from.induct)
  case (1 r i)
  show ?case by simp
next
  case (2 r i x xs)
  let ?pool = "x # xs"
  let ?j = "r i mod length ?pool"
  have j: "?j < length ?pool" by simp
  from remove_nth_distinct [OF "2.prems" j]
  have d: "distinct (take ?j ?pool @ drop (Suc ?j) ?pool)"
    and s: "set (take ?j ?pool @ drop (Suc ?j) ?pool) = set ?pool - {?pool ! ?j}" by simp_all
  from "2.IH" [OF refl d]
  have ih: "distinct (permutation_from r (Suc i) (take ?j ?pool @ drop (Suc ?j) ?pool))"
    "set (permutation_from r (Suc i) (take ?j ?pool @ drop (Suc ?j) ?pool)) = set ?pool - {?pool ! ?j}"
    using s by simp_all
  have "?pool ! ?j \<in> set ?pool" using j by (rule nth_mem)
  then show ?case using ih
    by (simp only: permutation_from.simps Let_def) auto
qed

lemma rng_permutation_perm:
  "distinct (rng_permutation e dir s n) \<and> set (rng_permutation e dir s n) = {0..<n}"
  using permutation_from_perm [of "[0..<n]" "rng_random e dir s" 0]
  by (simp add: rng_permutation_def)

lemma hd_rng_permutation:
  "0 < n \<Longrightarrow> hd (rng_permutation e dir s n) = rng_random e dir s 0 mod n"
proof -
  assume n: "0 < n"
  then obtain x xs where l: "[0..<n] = x # xs" by (cases "[0..<n]") auto
  have len: "length (x # xs) = n" using l by (metis length_upt diff_zero)
  have "(x # xs) ! (rng_random e dir s 0 mod n) = rng_random e dir s 0 mod n"
    using n by (simp add: l [symmetric])
  then show ?thesis
    unfolding rng_permutation_def l
    by (simp only: permutation_from.simps Let_def len list.sel)
qed

lemma drawn_split_ok:
  assumes "2 \<le> k"
  shows "drawn_split e dir s k =
     Inr (map Suc (tl (rng_permutation e dir s (nat k))), [Suc (rng_random e dir s 0 mod nat k)])"
proof -
  have p: "distinct (rng_permutation e dir s (nat k))" "set (rng_permutation e dir s (nat k)) = {0..<nat k}"
    using rng_permutation_perm by simp_all
  have "hd (rng_permutation e dir s (nat k)) = rng_random e dir s 0 mod nat k"
    using assms by (intro hd_rng_permutation) simp
  with train_test_split_perm [OF p assms] show ?thesis
    by (simp add: drawn_split_def Let_def length_arange1)
qed

lemma drawn_split_small:
  "k < 2 \<Longrightarrow> \<exists>msg. drawn_split e dir s k = Inl (ValueError msg)"
  using train_test_split_small [of k] by (simp add: drawn_split_def Let_def)

lemma drawn_split_Inr:
  assumes "drawn_split e dir s k = Inr (tr, ts)"
  shows "2 \<le> k \<and> set tr \<inter> set ts = {} \<and> set tr \<union> set ts = {1..nat k} \<and>
         length ts = 1 \<and> int (length tr) = k - 1 \<and> distinct tr \<and> tr \<noteq> [] \<and>
         ts = [Suc (rng_random e dir s 0 mod nat k)]"
proof -
  have k: "2 \<le> k"
    using assms drawn_split_small [of k e dir s] by (cases "k < 2") auto
  have p: "distinct (rng_permutation e dir s (nat k))" "set (rng_permutation e dir s (nat k)) = {0..<nat k}"
    using rng_permutation_perm by simp_all
  have r: "train_test_split (rng_permutation e dir s (nat k)) (arange1 k) = Inr (tr, ts)"
    using assms by (simp add: drawn_split_def Let_def length_arange1)
  from split_partition [OF p r] drawn_split_ok [OF k, of e dir s] assms k
  show ?thesis by simp
qed






subsection \<open>The start of the script\<close>

lemma grab_config_configured: "grab_config e a = (configured e a, [LoadCfg (cfg_path a)])"
  by (cases "cfg_path a") (simp_all add: grab_config_def configured_def call_io_def)









subsection \<open>What the loops accumulate\<close>

lemma recorded_values_append [simp]:
  "recorded_values (t @ t') = recorded_values t @ recorded_values t'"
  by (simp add: recorded_values_def)

lemma recorded_values_Nil [simp]: "recorded_values [] = []"
  by (simp add: recorded_values_def)

lemma recorded_values_ImRead [simp]:
  "recorded_values (map (\<lambda>i. ImRead (f i)) xs) = []"
  by (induction xs) (simp_all add: recorded_values_def)

lemma for_io_count:
  fixes g :: "event list \<Rightarrow> nat"
  assumes step: "\<And>x st st' t. body x st = (Inr st', t) \<Longrightarrow> g t = n"
    and g_Nil: "g [] = 0" and g_app: "\<And>t t'. g (t @ t') = g t + g t'"
  shows "for_io body xs st = (Inr st', t) \<Longrightarrow> g t = length xs * n"
proof (induction xs arbitrary: st t)
  case Nil
  then show ?case by (simp add: g_Nil)
next
  case (Cons x xs)
  from Cons.prems obtain st1 t1 t2 where
    b: "body x st = (Inr st1, t1)" and r: "for_io body xs st1 = (Inr st', t2)" and t: "t = t1 @ t2"
    unfolding for_io_Cons_Inr_iff by blast
  from step [OF b] Cons.IH [OF r] show ?case
    by (simp add: t g_app)
qed

lemma single_body_step:
  assumes "single_body e l dir d i j st = (Inr st', t)"
  shows "eval_single_ssim st' = eval_single_ssim st + sum_list (map fst (recorded_values t))"
    and "eval_single_psnr st' = eval_single_psnr st + sum_list (map snd (recorded_values t))"
    and "idx st' = idx st + length (recorded_values t)"
    and "length (recorded_values t) = 1"
  using single_body_Inr [OF assms] by (auto simp: recorded_values_def)

lemma single_inner_acc:
  assumes "for_io (single_body e l dir d i) js st = (Inr st', t)"
  shows "eval_single_ssim st' = eval_single_ssim st + sum_list (map fst (recorded_values t))"
    and "eval_single_psnr st' = eval_single_psnr st + sum_list (map snd (recorded_values t))"
    and "length (recorded_values t) = length js"
proof -
  show "eval_single_ssim st' = eval_single_ssim st + sum_list (map fst (recorded_values t))"
    by (rule for_io_acc [where g = "\<lambda>t. sum_list (map fst (recorded_values t))", OF _ _ _ assms])
       (simp_all add: single_body_step(1))
  show "eval_single_psnr st' = eval_single_psnr st + sum_list (map snd (recorded_values t))"
    by (rule for_io_acc [where g = "\<lambda>t. sum_list (map snd (recorded_values t))", OF _ _ _ assms])
       (simp_all add: single_body_step(2))
  show "length (recorded_values t) = length js"
    using for_io_count [where g = "\<lambda>t. length (recorded_values t)" and n = 1, OF _ _ _ assms]
    by (simp add: single_body_step(4))
qed

lemma single_loops_acc:
  assumes "single_loops e l dir d st = (Inr st', t)"
  shows "eval_single_ssim st' = eval_single_ssim st + sum_list (map fst (recorded_values t))"
    and "eval_single_psnr st' = eval_single_psnr st + sum_list (map snd (recorded_values t))"
    and "length (recorded_values t) = shape0 d * (shape1 d - 1)"
proof -
  note a = assms [unfolded single_loops_def]
  show "eval_single_ssim st' = eval_single_ssim st + sum_list (map fst (recorded_values t))"
    by (rule for_io_acc [where g = "\<lambda>t. sum_list (map fst (recorded_values t))", OF _ _ _ a])
       (simp_all add: single_inner_acc(1))
  show "eval_single_psnr st' = eval_single_psnr st + sum_list (map snd (recorded_values t))"
    by (rule for_io_acc [where g = "\<lambda>t. sum_list (map snd (recorded_values t))", OF _ _ _ a])
       (simp_all add: single_inner_acc(2))
  show "length (recorded_values t) = shape0 d * (shape1 d - 1)"
    using for_io_count [where g = "\<lambda>t. length (recorded_values t)" and n = "shape1 d - 1", OF _ _ _ a]
    by (simp add: single_inner_acc(3))
qed

lemma debevec_body_step:
  assumes "debevec_body e c l dir d s st = (Inr st', t)"
  shows "eval_adaptive_ssim st' = eval_adaptive_ssim st + sum_list (map fst (recorded_values t))"
    and "eval_adaptive_psnr st' = eval_adaptive_psnr st + sum_list (map snd (recorded_values t))"
    and "length (recorded_values t) = 1"
  using debevec_body_Inr [OF assms] by (auto simp: recorded_values_def)

lemma hdrcnn_body_step:
  assumes "hdrcnn_body e c l dir d s st = (Inr st', t)"
  shows "eval_adaptive_ssim st' = eval_adaptive_ssim st + sum_list (map fst (recorded_values t))"
    and "eval_adaptive_psnr st' = eval_adaptive_psnr st + sum_list (map snd (recorded_values t))"
    and "length (recorded_values t) = 1"
proof -
  from hdrcnn_body_Inr [OF assms] obtain tr call v where
    t: "t = Split dir s # map (\<lambda>i. ImRead (label_path e d s i)) tr @ [EvalMaml call (Inr v)]"
    and st': "st' = st\<lparr>idx := idx st + 1,
                    eval_adaptive_ssim := eval_adaptive_ssim st + fst v,
                    eval_adaptive_psnr := eval_adaptive_psnr st + snd v\<rparr>"
    by blast
  have r: "recorded_values t = [v]"
    unfolding t by (simp add: recorded_values_def [of "Split dir s # _"] recorded_values_def [of "[_]"])
  show "eval_adaptive_ssim st' = eval_adaptive_ssim st + sum_list (map fst (recorded_values t))"
    "eval_adaptive_psnr st' = eval_adaptive_psnr st + sum_list (map snd (recorded_values t))"
    "length (recorded_values t) = 1"
    by (simp_all add: r st')
qed


lemma single_mode_mean:
  assumes "single_mode e l dir d st0 = (Inr st', t)"
  shows "int (shape0 d) * (int (shape1 d) - 1) \<noteq> 0"
    and "eval_single_ssim st' =
           sum_list (map fst (recorded_values t)) / of_int (int (shape0 d) * (int (shape1 d) - 1))"
    and "eval_single_psnr st' =
           sum_list (map snd (recorded_values t)) / of_int (int (shape0 d) * (int (shape1 d) - 1))"
    and "length (recorded_values t) = shape0 d * (shape1 d - 1)"
    and "\<exists>tl. t = Print ''Performing Single-Shot Evaluation'' # tl @
           [PrintAvg ''[Evaluation Results] Average Single-Shot Evaluation SSIM'' (eval_single_ssim st'),
            PrintAvg ''[Evaluation Results] Average Single-Shot Evaluation PSNR'' (eval_single_psnr st')]"
proof -
  from assms obtain stl tl t3 ssim psnr where
    loops: "single_loops e l dir d (st0\<lparr>eval_single_ssim := 0, eval_single_psnr := 0, idx := 0\<rparr>) =
              (Inr stl, tl)" and
    d1: "py_truediv (eval_single_ssim stl) (int (shape0 d) * (int (shape1 d) - 1)) = Inr ssim" and
    d2: "py_truediv (eval_single_psnr stl) (int (shape0 d) * (int (shape1 d) - 1)) = Inr psnr" and
    st': "st' = stl\<lparr>eval_single_ssim := ssim, eval_single_psnr := psnr\<rparr>" and
    t: "t = Print ''Performing Single-Shot Evaluation'' # tl @
          [PrintAvg ''[Evaluation Results] Average Single-Shot Evaluation SSIM'' ssim,
           PrintAvg ''[Evaluation Results] Average Single-Shot Evaluation PSNR'' psnr]"
    by (auto simp: single_mode_def then_io_Inr_iff)
  from d1 d2 have nz: "int (shape0 d) * (int (shape1 d) - 1) \<noteq> 0"
    and e1: "ssim = eval_single_ssim stl / of_int (int (shape0 d) * (int (shape1 d) - 1))"
    and e2: "psnr = eval_single_psnr stl / of_int (int (shape0 d) * (int (shape1 d) - 1))"
    by (auto simp: py_truediv_def split: if_splits)
  have rv: "recorded_values t = recorded_values tl"
    unfolding t by (simp add: recorded_values_def)
  note acc = single_loops_acc [OF loops]
  show "int (shape0 d) * (int (shape1 d) - 1) \<noteq> 0" by (rule nz)
  show "eval_single_ssim st' =
           sum_list (map fst (recorded_values t)) / of_int (int (shape0 d) * (int (shape1 d) - 1))"
    using acc(1) by (simp add: st' e1 rv)
  show "eval_single_psnr st' =
           sum_list (map snd (recorded_values t)) / of_int (int (shape0 d) * (int (shape1 d) - 1))"
    using acc(2) by (simp add: st' e2 rv)
  show "length (recorded_values t) = shape0 d * (shape1 d - 1)"
    using acc(3) by (simp add: rv)
  show "\<exists>tl. t = Print ''Performing Single-Shot Evaluation'' # tl @
           [PrintAvg ''[Evaluation Results] Average Single-Shot Evaluation SSIM'' (eval_single_ssim st'),
            PrintAvg ''[Evaluation Results] Average Single-Shot Evaluation PSNR'' (eval_single_psnr st')]"
    using t by (simp add: st')
qed

lemma debevec_mode_mean:
  assumes "debevec_mode e c l dir d st0 = (Inr st', t)"
  shows "shape0 d \<noteq> 0"
    and "eval_adaptive_ssim st' = sum_list (map fst (recorded_values t)) / real (shape0 d)"
    and "eval_adaptive_psnr st' = sum_list (map snd (recorded_values t)) / real (shape0 d)"
    and "length (recorded_values t) = shape0 d"
    and "\<exists>tl. t = Print ''Performing Adaptive Evaluation using Debevec labels'' # tl @
           [PrintAvg ''[Evaluation Results] Average Debevec Adapted Evaluation SSIM'' (eval_adaptive_ssim st'),
            PrintAvg ''[Evaluation Results] Average Debevec Adapted Evaluation PSNR'' (eval_adaptive_psnr st')]"
proof -
  from assms obtain stl tl t3 where
    loops: "for_io (debevec_body e c l dir d) [0 ..< shape0 d]
              (st0\<lparr>eval_adaptive_ssim := 0, eval_adaptive_psnr := 0, idx := 0\<rparr>) = (Inr stl, tl)" and
    fin: "adaptive_finish ''Debevec'' d stl = (Inr st', t3)" and
    t: "t = Print ''Performing Adaptive Evaluation using Debevec labels'' # tl @ t3"
    by (auto simp: debevec_mode_def then_io_Inr_iff)
  from fin have nz: "shape0 d \<noteq> 0"
    and t3: "t3 = [PrintAvg ''[Evaluation Results] Average Debevec Adapted Evaluation SSIM'' (eval_adaptive_ssim st'),
                  PrintAvg ''[Evaluation Results] Average Debevec Adapted Evaluation PSNR'' (eval_adaptive_psnr st')]"
    and e1: "eval_adaptive_ssim st' = eval_adaptive_ssim stl / real (shape0 d)"
    and e2: "eval_adaptive_psnr st' = eval_adaptive_psnr stl / real (shape0 d)"
    by (auto simp: adaptive_finish_def then_io_Inr_iff py_truediv_def split: if_splits)
  have rv: "recorded_values t = recorded_values tl"
    unfolding t t3 by (simp add: recorded_values_def)
  have a1: "eval_adaptive_ssim stl = sum_list (map fst (recorded_values tl))"
    using for_io_acc [where g = "\<lambda>t. sum_list (map fst (recorded_values t))"
        and f = eval_adaptive_ssim, OF _ _ _ loops]
    by (simp add: debevec_body_step(1))
  have a2: "eval_adaptive_psnr stl = sum_list (map snd (recorded_values tl))"
    using for_io_acc [where g = "\<lambda>t. sum_list (map snd (recorded_values t))"
        and f = eval_adaptive_psnr, OF _ _ _ loops]
    by (simp add: debevec_body_step(2))
  have a3: "length (recorded_values tl) = shape0 d"
    using for_io_count [where g = "\<lambda>t. length (recorded_values t)" and n = 1, OF _ _ _ loops]
    by (simp add: debevec_body_step(3))
  show "shape0 d \<noteq> 0" by (rule nz)
  show "eval_adaptive_ssim st' = sum_list (map fst (recorded_values t)) / real (shape0 d)"
    by (simp add: e1 a1 rv)
  show "eval_adaptive_psnr st' = sum_list (map snd (recorded_values t)) / real (shape0 d)"
    by (simp add: e2 a2 rv)
  show "length (recorded_values t) = shape0 d" by (simp add: rv a3)
  show "\<exists>tl. t = Print ''Performing Adaptive Evaluation using Debevec labels'' # tl @
           [PrintAvg ''[Evaluation Results] Average Debevec Adapted Evaluation SSIM'' (eval_adaptive_ssim st'),
            PrintAvg ''[Evaluation Results] Average Debevec Adapted Evaluation PSNR'' (eval_adaptive_psnr st')]"
    using t t3 by blast
qed

lemma hdrcnn_mode_mean:
  assumes "hdrcnn_mode e c l dir d st0 = (Inr st', t)"
  shows "shape0 d \<noteq> 0"
    and "eval_adaptive_ssim st' = sum_list (map fst (recorded_values t)) / real (shape0 d)"
    and "eval_adaptive_psnr st' = sum_list (map snd (recorded_values t)) / real (shape0 d)"
    and "length (recorded_values t) = shape0 d"
    and "\<exists>tl. t = Print ''Performing Adaptive Evaluation using HDRCNN labels'' # tl @
           [PrintAvg ''[Evaluation Results] Average HDRCNN Adapted Evaluation SSIM'' (eval_adaptive_ssim st'),
            PrintAvg ''[Evaluation Results] Average HDRCNN Adapted Evaluation PSNR'' (eval_adaptive_psnr st')]"
proof -
  from assms obtain stl tl t3 where
    loops: "for_io (hdrcnn_body e c l dir d) [0 ..< shape0 d]
              (st0\<lparr>eval_adaptive_ssim := 0, eval_adaptive_psnr := 0, idx := 0\<rparr>) = (Inr stl, tl)" and
    fin: "adaptive_finish ''HDRCNN'' d stl = (Inr st', t3)" and
    t: "t = Print ''Performing Adaptive Evaluation using HDRCNN labels'' # tl @ t3"
    by (auto simp: hdrcnn_mode_def then_io_Inr_iff)
  from fin have nz: "shape0 d \<noteq> 0"
    and t3: "t3 = [PrintAvg ''[Evaluation Results] Average HDRCNN Adapted Evaluation SSIM'' (eval_adaptive_ssim st'),
                  PrintAvg ''[Evaluation Results] Average HDRCNN Adapted Evaluation PSNR'' (eval_adaptive_psnr st')]"
    and e1: "eval_adaptive_ssim st' = eval_adaptive_ssim stl / real (shape0 d)"
    and e2: "eval_adaptive_psnr st' = eval_adaptive_psnr stl / real (shape0 d)"
    by (auto simp: adaptive_finish_def then_io_Inr_iff py_truediv_def split: if_splits)
  have rv: "recorded_values t = recorded_values tl"
    unfolding t t3 by (simp add: recorded_values_def)
  have a1: "eval_adaptive_ssim stl = sum_list (map fst (recorded_values tl))"
    using for_io_acc [where g = "\<lambda>t. sum_list (map fst (recorded_values t))"
        and f = eval_adaptive_ssim, OF _ _ _ loops]
    by (simp add: hdrcnn_body_step(1))
  have a2: "eval_adaptive_psnr stl = sum_list (map snd (recorded_values tl))"
    using for_io_acc [where g = "\<lambda>t. sum_list (map snd (recorded_values t))"
        and f = eval_adaptive_psnr, OF _ _ _ loops]
    by (simp add: hdrcnn_body_step(2))
  have a3: "length (recorded_values tl) = shape0 d"
    using for_io_count [where g = "\<lambda>t. length (recorded_values t)" and n = 1, OF _ _ _ loops]
    by (simp add: hdrcnn_body_step(3))
  show "shape0 d \<noteq> 0" by (rule nz)
  show "eval_adaptive_ssim st' = sum_list (map fst (recorded_values t)) / real (shape0 d)"
    by (simp add: e1 a1 rv)
  show "eval_adaptive_psnr st' = sum_list (map snd (recorded_values t)) / real (shape0 d)"
    by (simp add: e2 a2 rv)
  show "length (recorded_values t) = shape0 d" by (simp add: rv a3)
  show "\<exists>tl. t = Print ''Performing Adaptive Evaluation using HDRCNN labels'' # tl @
           [PrintAvg ''[Evaluation Results] Average HDRCNN Adapted Evaluation SSIM'' (eval_adaptive_ssim st'),
            PrintAvg ''[Evaluation Results] Average HDRCNN Adapted Evaluation PSNR'' (eval_adaptive_psnr st')]"
    using t t3 by blast
qed

lemma ex_single_mode_22:
  "fst (single_mode (ex_env ''SSIMLoss'' 2 2) ''SSIMLoss'' ''s'' (ex_data 2 3) locals0) =
     Inr \<lparr>eval_single_ssim = 3 / 2, eval_single_psnr = 1,
           eval_adaptive_ssim = 0, eval_adaptive_psnr = 0, idx = 4\<rparr>"
  by (simp add: run_eval ex_eval)

lemma ex_debevec_mode_22:
  "fst (debevec_mode (ex_env ''SSIMLoss'' 2 2) (ex_cfg ''SSIMLoss'' 2) ''SSIMLoss'' ''a'' (ex_data 2 3) locals0) =
     Inr \<lparr>eval_single_ssim = 0, eval_single_psnr = 0,
           eval_adaptive_ssim = 1 / 2, eval_adaptive_psnr = 2, idx = 2\<rparr>"
  by (simp add: run_eval ex_eval)

lemma ex_hdrcnn_mode_22:
  "fst (hdrcnn_mode (ex_env ''SSIMLoss'' 2 2) (ex_cfg ''SSIMLoss'' 2) ''SSIMLoss'' ''h'' (ex_data 2 3) locals0) =
     Inr \<lparr>eval_single_ssim = 0, eval_single_psnr = 0,
           eval_adaptive_ssim = 1 / 2, eval_adaptive_psnr = 2, idx = 2\<rparr>"
  by (simp add: run_eval ex_eval fmt_eval)

lemma ex_scene_invariant: "scene_invariant 2 (ex_data 2 3)"
  by (simp add: scene_invariant_def ex_data_def)

lemma pair_of_fst: "fst x = r \<Longrightarrow> x = (r, snd x)"
  by auto

text \<open>
  Claim C4. Whenever a mode completes, the two values it prints and leaves in its
  accumulators are the sums of the SSIM and of the PSNR values that the evaluation calls
  of this mode returned, divided by the number of those values: in the single-shot mode
  the divisor is the number of scenes times K (for data with K + 1 images per scene),
  in each adaptive mode the number of scenes. Metric values are reals here.
\<close>

theorem C4_reported_means:
  "(single_mode e l dir1 d st0 = (Inr st1, t1) \<and> scene_invariant k d \<longrightarrow>
      length (recorded_values t1) = shape0 d * nat k \<and> recorded_values t1 \<noteq> [] \<and>
      eval_single_ssim st1 = sum_list (map fst (recorded_values t1)) / real (shape0 d * nat k) \<and>
      eval_single_psnr st1 = sum_list (map snd (recorded_values t1)) / real (shape0 d * nat k) \<and>
      (\<exists>tl. t1 = Print ''Performing Single-Shot Evaluation'' # tl @
         [PrintAvg ''[Evaluation Results] Average Single-Shot Evaluation SSIM'' (eval_single_ssim st1),
          PrintAvg ''[Evaluation Results] Average Single-Shot Evaluation PSNR'' (eval_single_psnr st1)])) \<and>
   (debevec_mode e c l dir2 d st0' = (Inr st2, t2) \<longrightarrow>
      length (recorded_values t2) = shape0 d \<and> recorded_values t2 \<noteq> [] \<and>
      eval_adaptive_ssim st2 = sum_list (map fst (recorded_values t2)) / real (shape0 d) \<and>
      eval_adaptive_psnr st2 = sum_list (map snd (recorded_values t2)) / real (shape0 d) \<and>
      (\<exists>tl. t2 = Print ''Performing Adaptive Evaluation using Debevec labels'' # tl @
         [PrintAvg ''[Evaluation Results] Average Debevec Adapted Evaluation SSIM'' (eval_adaptive_ssim st2),
          PrintAvg ''[Evaluation Results] Average Debevec Adapted Evaluation PSNR'' (eval_adaptive_psnr st2)])) \<and>
   (hdrcnn_mode e c l dir3 d st0'' = (Inr st3, t3) \<longrightarrow>
      length (recorded_values t3) = shape0 d \<and> recorded_values t3 \<noteq> [] \<and>
      eval_adaptive_ssim st3 = sum_list (map fst (recorded_values t3)) / real (shape0 d) \<and>
      eval_adaptive_psnr st3 = sum_list (map snd (recorded_values t3)) / real (shape0 d) \<and>
      (\<exists>tl. t3 = Print ''Performing Adaptive Evaluation using HDRCNN labels'' # tl @
         [PrintAvg ''[Evaluation Results] Average HDRCNN Adapted Evaluation SSIM'' (eval_adaptive_ssim st3),
          PrintAvg ''[Evaluation Results] Average HDRCNN Adapted Evaluation PSNR'' (eval_adaptive_psnr st3)]))"
proof (intro conjI impI)
  assume h: "single_mode e l dir1 d st0 = (Inr st1, t1) \<and> scene_invariant k d"
  then have ok: "single_mode e l dir1 d st0 = (Inr st1, t1)" and k: "0 \<le> k" "int (shape1 d) = k + 1"
    by (simp_all add: scene_invariant_def)
  note m = single_mode_mean [OF ok]
  have sh: "shape1 d - 1 = nat k" using k by simp
  have dv: "int (shape0 d) * (int (shape1 d) - 1) = int (shape0 d * nat k)" using k by simp
  show len: "length (recorded_values t1) = shape0 d * nat k" using m(4) sh by simp
  have "int (shape0 d * nat k) \<noteq> 0" using m(1) unfolding dv .
  then have "shape0 d * nat k \<noteq> 0" by (metis of_nat_0)
  then show "recorded_values t1 \<noteq> []" using len by auto
  show "eval_single_ssim st1 = sum_list (map fst (recorded_values t1)) / real (shape0 d * nat k)"
    using m(2) unfolding dv by simp
  show "eval_single_psnr st1 = sum_list (map snd (recorded_values t1)) / real (shape0 d * nat k)"
    using m(3) unfolding dv by simp
  show "\<exists>tl. t1 = Print ''Performing Single-Shot Evaluation'' # tl @
         [PrintAvg ''[Evaluation Results] Average Single-Shot Evaluation SSIM'' (eval_single_ssim st1),
          PrintAvg ''[Evaluation Results] Average Single-Shot Evaluation PSNR'' (eval_single_psnr st1)]"
    by (rule m(5))
next
  assume ok: "debevec_mode e c l dir2 d st0' = (Inr st2, t2)"
  note m = debevec_mode_mean [OF ok]
  show "length (recorded_values t2) = shape0 d" by (rule m(4))
  show "recorded_values t2 \<noteq> []" using m(1) m(4) by auto
  show "eval_adaptive_ssim st2 = sum_list (map fst (recorded_values t2)) / real (shape0 d)" by (rule m(2))
  show "eval_adaptive_psnr st2 = sum_list (map snd (recorded_values t2)) / real (shape0 d)" by (rule m(3))
  show "\<exists>tl. t2 = Print ''Performing Adaptive Evaluation using Debevec labels'' # tl @
         [PrintAvg ''[Evaluation Results] Average Debevec Adapted Evaluation SSIM'' (eval_adaptive_ssim st2),
          PrintAvg ''[Evaluation Results] Average Debevec Adapted Evaluation PSNR'' (eval_adaptive_psnr st2)]"
    by (rule m(5))
next
  assume ok: "hdrcnn_mode e c l dir3 d st0'' = (Inr st3, t3)"
  note m = hdrcnn_mode_mean [OF ok]
  show "length (recorded_values t3) = shape0 d" by (rule m(4))
  show "recorded_values t3 \<noteq> []" using m(1) m(4) by auto
  show "eval_adaptive_ssim st3 = sum_list (map fst (recorded_values t3)) / real (shape0 d)" by (rule m(2))
  show "eval_adaptive_psnr st3 = sum_list (map snd (recorded_values t3)) / real (shape0 d)" by (rule m(3))
  show "\<exists>tl. t3 = Print ''Performing Adaptive Evaluation using HDRCNN labels'' # tl @
         [PrintAvg ''[Evaluation Results] Average HDRCNN Adapted Evaluation SSIM'' (eval_adaptive_ssim st3),
          PrintAvg ''[Evaluation Results] Average HDRCNN Adapted Evaluation PSNR'' (eval_adaptive_psnr st3)]"
    by (rule m(5))
qed

theorem C4_reported_means_witness:
  "fst (single_mode (ex_env ''SSIMLoss'' 2 2) ''SSIMLoss'' ''s'' (ex_data 2 3) locals0) =
     Inr \<lparr>eval_single_ssim = 3 / 2, eval_single_psnr = 1,
           eval_adaptive_ssim = 0, eval_adaptive_psnr = 0, idx = 4\<rparr> \<and>
   scene_invariant 2 (ex_data 2 3) \<and>
   fst (debevec_mode (ex_env ''SSIMLoss'' 2 2) (ex_cfg ''SSIMLoss'' 2) ''SSIMLoss'' ''a'' (ex_data 2 3) locals0) =
     Inr \<lparr>eval_single_ssim = 0, eval_single_psnr = 0,
           eval_adaptive_ssim = 1 / 2, eval_adaptive_psnr = 2, idx = 2\<rparr> \<and>
   fst (hdrcnn_mode (ex_env ''SSIMLoss'' 2 2) (ex_cfg ''SSIMLoss'' 2) ''SSIMLoss'' ''h'' (ex_data 2 3) locals0) =
     Inr \<lparr>eval_single_ssim = 0, eval_single_psnr = 0,
           eval_adaptive_ssim = 1 / 2, eval_adaptive_psnr = 2, idx = 2\<rparr> \<and>
   length (recorded_values (snd (single_mode (ex_env ''SSIMLoss'' 2 2) ''SSIMLoss'' ''s'' (ex_data 2 3) locals0))) =
     shape0 (ex_data 2 3) * nat 2 \<and>
   3 / 2 = sum_list (map fst (recorded_values
     (snd (single_mode (ex_env ''SSIMLoss'' 2 2) ''SSIMLoss'' ''s'' (ex_data 2 3) locals0)))) /
     real (shape0 (ex_data 2 3) * nat 2) \<and>
   1 / 2 = sum_list (map fst (recorded_values
     (snd (debevec_mode (ex_env ''SSIMLoss'' 2 2) (ex_cfg ''SSIMLoss'' 2) ''SSIMLoss'' ''a'' (ex_data 2 3) locals0)))) /
     real (shape0 (ex_data 2 3)) \<and>
   2 = sum_list (map snd (recorded_values
     (snd (hdrcnn_mode (ex_env ''SSIMLoss'' 2 2) (ex_cfg ''SSIMLoss'' 2) ''SSIMLoss'' ''h'' (ex_data 2 3) locals0)))) /
     real (shape0 (ex_data 2 3))"
proof -
  note inst = C4_reported_means
    [of "ex_env ''SSIMLoss'' 2 2" "''SSIMLoss''" "''s''" "ex_data 2 3" locals0
        "\<lparr>eval_single_ssim = 3 / 2, eval_single_psnr = 1,
           eval_adaptive_ssim = 0, eval_adaptive_psnr = 0, idx = 4\<rparr>"
        "snd (single_mode (ex_env ''SSIMLoss'' 2 2) ''SSIMLoss'' ''s'' (ex_data 2 3) locals0)"
        2 "ex_cfg ''SSIMLoss'' 2" "''a''" locals0
        "\<lparr>eval_single_ssim = 0, eval_single_psnr = 0,
           eval_adaptive_ssim = 1 / 2, eval_adaptive_psnr = 2, idx = 2\<rparr>"
        "snd (debevec_mode (ex_env ''SSIMLoss'' 2 2) (ex_cfg ''SSIMLoss'' 2) ''SSIMLoss'' ''a'' (ex_data 2 3) locals0)"
        "''h''" locals0
        "\<lparr>eval_single_ssim = 0, eval_single_psnr = 0,
           eval_adaptive_ssim = 1 / 2, eval_adaptive_psnr = 2, idx = 2\<rparr>"
        "snd (hdrcnn_mode (ex_env ''SSIMLoss'' 2 2) (ex_cfg ''SSIMLoss'' 2) ''SSIMLoss'' ''h'' (ex_data 2 3) locals0)"]
  from inst [THEN conjunct1, THEN mp, OF conjI, OF pair_of_fst [OF ex_single_mode_22] ex_scene_invariant]
  have a: "length (recorded_values (snd (single_mode (ex_env ''SSIMLoss'' 2 2) ''SSIMLoss'' ''s'' (ex_data 2 3) locals0))) =
     shape0 (ex_data 2 3) * nat 2"
    "3 / 2 = sum_list (map fst (recorded_values
     (snd (single_mode (ex_env ''SSIMLoss'' 2 2) ''SSIMLoss'' ''s'' (ex_data 2 3) locals0)))) /
     real (shape0 (ex_data 2 3) * nat 2)"
    unfolding locals.select_convs by blast+
  from inst [THEN conjunct2, THEN conjunct1, THEN mp, OF pair_of_fst [OF ex_debevec_mode_22]]
  have b: "1 / 2 = sum_list (map fst (recorded_values
     (snd (debevec_mode (ex_env ''SSIMLoss'' 2 2) (ex_cfg ''SSIMLoss'' 2) ''SSIMLoss'' ''a'' (ex_data 2 3) locals0)))) /
     real (shape0 (ex_data 2 3))"
    unfolding locals.select_convs by blast
  from inst [THEN conjunct2, THEN conjunct2, THEN mp, OF pair_of_fst [OF ex_hdrcnn_mode_22]]
  have c: "2 = sum_list (map snd (recorded_values
     (snd (hdrcnn_mode (ex_env ''SSIMLoss'' 2 2) (ex_cfg ''SSIMLoss'' 2) ''SSIMLoss'' ''h'' (ex_data 2 3) locals0)))) /
     real (shape0 (ex_data 2 3))"
    unfolding locals.select_convs by blast
  from ex_single_mode_22 ex_scene_invariant ex_debevec_mode_22 ex_hdrcnn_mode_22 a b c
  show ?thesis by blast
qed

subsection \<open>A completed run\<close>

lemma make_dirs_Inr:
  assumes "make_dirs e a = (Inr dirs, t)"
  shows "\<exists>sd. model_dir a = Some sd \<and>
           dirs = (sd, osp_join (osp_join sd ''evaluation_output'') ''single'',
                   osp_join (osp_join sd ''evaluation_output'') ''adapt_debevec'',
                   osp_join (osp_join sd ''evaluation_output'') ''adapt_hdrcnn'')"
  using assms
  by (cases "model_dir a")
     (auto simp: make_dirs_def Let_def then_io_Inr_iff)

lemma grab_loss_Inr:
  "grab_loss e c = (Inr l, t) \<Longrightarrow> l = LOSS_FUNC c \<and> LOSS_FUNC c \<in> set loss_names"
  by (auto simp: grab_loss_def then_io_Inr_iff split: if_splits)

lemma main_Inr:
  assumes "main e a = (Inr u, t)"
  shows "\<exists>sd c d st1 st2 st3 t0 t1 t2 t3.
           model_dir a = Some sd \<and> configured e a = Inr c \<and> LOSS_FUNC c \<in> set loss_names \<and>
           DataGenerator e (NUM_EXPOSURES c) = Inr d \<and>
           single_mode e (LOSS_FUNC c) (osp_join (osp_join sd ''evaluation_output'') ''single'')
             d locals0 = (Inr st1, t1) \<and>
           debevec_mode e c (LOSS_FUNC c) (osp_join (osp_join sd ''evaluation_output'') ''adapt_debevec'')
             d st1 = (Inr st2, t2) \<and>
           hdrcnn_mode e c (LOSS_FUNC c) (osp_join (osp_join sd ''evaluation_output'') ''adapt_hdrcnn'')
             d st2 = (Inr st3, t3) \<and>
           t = t0 @ t1 @ t2 @ t3"
proof -
  from assms obtain dirs ta c tc l tl tm d st1 t1 st2 t2 st3 t3 tg where
    md: "make_dirs e a = (Inr dirs, ta)" and
    gc: "grab_config e a = (Inr c, tc)" and
    gl: "grab_loss e c = (Inr l, tl)" and
    dg: "DataGenerator e (NUM_EXPOSURES c) = Inr d" and
    m1: "single_mode e l (fst (snd dirs)) d locals0 = (Inr st1, t1)" and
    m2: "debevec_mode e c l (fst (snd (snd dirs))) d st1 = (Inr st2, t2)" and
    m3: "hdrcnn_mode e c l (snd (snd (snd dirs))) d st2 = (Inr st3, t3)" and
    t: "t = ta @ tg @ tc @ tl @ tm @ [LoadData (NUM_EXPOSURES c)] @ t1 @ t2 @ t3"
    unfolding main_def then_io_Inr_iff split_beta
    by (fastforce simp: call_io_def)
  from make_dirs_Inr [OF md] obtain sd where sd: "model_dir a = Some sd"
    and dirs: "dirs = (sd, osp_join (osp_join sd ''evaluation_output'') ''single'',
                   osp_join (osp_join sd ''evaluation_output'') ''adapt_debevec'',
                   osp_join (osp_join sd ''evaluation_output'') ''adapt_hdrcnn'')" by blast
  from grab_loss_Inr [OF gl] have l: "l = LOSS_FUNC c" "LOSS_FUNC c \<in> set loss_names" by simp_all
  from gc have cf: "configured e a = Inr c" by (simp add: grab_config_configured)
  have "t = (ta @ tg @ tc @ tl @ tm @ [LoadData (NUM_EXPOSURES c)]) @ t1 @ t2 @ t3"
    using t by simp
  with sd cf l dg m1 m2 m3 show ?thesis
    unfolding dirs l(1) by (simp only: fst_conv snd_conv) blast
qed


subsection \<open>The task counter\<close>

lemma single_loops_idx:
  assumes "single_loops e l dir d st = (Inr st', t)"
  shows "idx st' = idx st + length (recorded_values t)"
  by (rule for_io_acc [where g = "\<lambda>t. length (recorded_values t)" and f = idx,
        OF _ _ _ assms [unfolded single_loops_def]],
      rule for_io_acc [where g = "\<lambda>t. length (recorded_values t)" and f = idx])
     (simp_all add: single_body_step(3))

lemma single_mode_idx:
  assumes "single_mode e l dir d st0 = (Inr st', t)"
  shows "idx st' = length (recorded_values t)"
proof -
  from assms obtain stl tl ssim psnr where
    loops: "single_loops e l dir d (st0\<lparr>eval_single_ssim := 0, eval_single_psnr := 0, idx := 0\<rparr>) =
              (Inr stl, tl)" and
    st': "st' = stl\<lparr>eval_single_ssim := ssim, eval_single_psnr := psnr\<rparr>" and
    t: "t = Print ''Performing Single-Shot Evaluation'' # tl @
          [PrintAvg ''[Evaluation Results] Average Single-Shot Evaluation SSIM'' ssim,
           PrintAvg ''[Evaluation Results] Average Single-Shot Evaluation PSNR'' psnr]"
    by (auto simp: single_mode_def then_io_Inr_iff)
  have "recorded_values t = recorded_values tl"
    unfolding t by (simp add: recorded_values_def)
  with single_loops_idx [OF loops] show ?thesis by (simp add: st')
qed

lemma debevec_body_idx:
  assumes "debevec_body e c l dir d s st = (Inr st', t)"
  shows "idx st' = idx st + length (recorded_values t)"
  using debevec_body_Inr [OF assms] debevec_body_step(3) [OF assms] by auto

lemma hdrcnn_body_idx:
  assumes "hdrcnn_body e c l dir d s st = (Inr st', t)"
  shows "idx st' = idx st + length (recorded_values t)"
  using hdrcnn_body_Inr [OF assms] hdrcnn_body_step(3) [OF assms] by auto

lemma adaptive_finish_idx:
  "adaptive_finish name d st = (Inr st', t) \<Longrightarrow> idx st' = idx st \<and> recorded_values t = []"
  by (auto simp: adaptive_finish_def then_io_Inr_iff recorded_values_def)

lemma debevec_mode_idx:
  assumes "debevec_mode e c l dir d st0 = (Inr st', t)"
  shows "idx st' = length (recorded_values t)"
proof -
  from assms obtain stl tl t3 where
    loops: "for_io (debevec_body e c l dir d) [0 ..< shape0 d]
              (st0\<lparr>eval_adaptive_ssim := 0, eval_adaptive_psnr := 0, idx := 0\<rparr>) = (Inr stl, tl)" and
    fin: "adaptive_finish ''Debevec'' d stl = (Inr st', t3)" and
    t: "t = Print ''Performing Adaptive Evaluation using Debevec labels'' # tl @ t3"
    by (auto simp: debevec_mode_def then_io_Inr_iff)
  have "idx stl = length (recorded_values tl)"
    using for_io_acc [where g = "\<lambda>t. length (recorded_values t)" and f = idx, OF _ _ _ loops]
    by (simp add: debevec_body_idx)
  moreover have "recorded_values t = recorded_values tl"
    unfolding t using adaptive_finish_idx [OF fin] by (simp add: recorded_values_def)
  ultimately show ?thesis using adaptive_finish_idx [OF fin] by simp
qed

lemma hdrcnn_mode_idx:
  assumes "hdrcnn_mode e c l dir d st0 = (Inr st', t)"
  shows "idx st' = length (recorded_values t)"
proof -
  from assms obtain stl tl t3 where
    loops: "for_io (hdrcnn_body e c l dir d) [0 ..< shape0 d]
              (st0\<lparr>eval_adaptive_ssim := 0, eval_adaptive_psnr := 0, idx := 0\<rparr>) = (Inr stl, tl)" and
    fin: "adaptive_finish ''HDRCNN'' d stl = (Inr st', t3)" and
    t: "t = Print ''Performing Adaptive Evaluation using HDRCNN labels'' # tl @ t3"
    by (auto simp: hdrcnn_mode_def then_io_Inr_iff)
  have "idx stl = length (recorded_values tl)"
    using for_io_acc [where g = "\<lambda>t. length (recorded_values t)" and f = idx, OF _ _ _ loops]
    by (simp add: hdrcnn_body_idx)
  moreover have "recorded_values t = recorded_values tl"
    unfolding t using adaptive_finish_idx [OF fin] by (simp add: recorded_values_def)
  ultimately show ?thesis using adaptive_finish_idx [OF fin] by simp
qed

lemma modes_in_a_run:
  assumes "main e a = (Inr u, t)"
  shows "\<exists>sd c d t0.
           model_dir a = Some sd \<and> configured e a = Inr c \<and>
           DataGenerator e (NUM_EXPOSURES c) = Inr d \<and>
           t = t0 @
             snd (single_mode e (LOSS_FUNC c) (osp_join (osp_join sd ''evaluation_output'') ''single'')
                    d locals0) @
             snd (debevec_mode e c (LOSS_FUNC c) (osp_join (osp_join sd ''evaluation_output'') ''adapt_debevec'')
                    d locals0) @
             snd (hdrcnn_mode e c (LOSS_FUNC c) (osp_join (osp_join sd ''evaluation_output'') ''adapt_hdrcnn'')
                    d locals0)"
proof -
  from main_Inr [OF assms] obtain sd c d st1 st2 st3 t0 t1 t2 t3 where
    h: "model_dir a = Some sd" "configured e a = Inr c" "DataGenerator e (NUM_EXPOSURES c) = Inr d"
    and m1: "single_mode e (LOSS_FUNC c) (osp_join (osp_join sd ''evaluation_output'') ''single'')
             d locals0 = (Inr st1, t1)"
    and m2: "debevec_mode e c (LOSS_FUNC c) (osp_join (osp_join sd ''evaluation_output'') ''adapt_debevec'')
             d st1 = (Inr st2, t2)"
    and m3: "hdrcnn_mode e c (LOSS_FUNC c) (osp_join (osp_join sd ''evaluation_output'') ''adapt_hdrcnn'')
             d st2 = (Inr st3, t3)"
    and t: "t = t0 @ t1 @ t2 @ t3" by blast
  have "t1 = snd (single_mode e (LOSS_FUNC c) (osp_join (osp_join sd ''evaluation_output'') ''single'')
                    d locals0)" using m1 by simp
  moreover have "t2 = snd (debevec_mode e c (LOSS_FUNC c) (osp_join (osp_join sd ''evaluation_output'') ''adapt_debevec'')
                    d locals0)"
    using m2 debevec_mode_any [of e c "LOSS_FUNC c" _ d st1 locals0] by simp
  moreover have "t3 = snd (hdrcnn_mode e c (LOSS_FUNC c) (osp_join (osp_join sd ''evaluation_output'') ''adapt_hdrcnn'')
                    d locals0)"
    using m3 hdrcnn_mode_any [of e c "LOSS_FUNC c" _ d st2 locals0] by simp
  ultimately show ?thesis using h t by blast
qed


text \<open>
  Claim C8. Each mode sets its two accumulators and its task counter to zero before its
  loop (lines 78 to 80, 97 to 99, 145 to 154). Whatever the local variables hold when a
  mode starts: when the mode completes, its accumulators are the sums, from zero, of the
  values that its own evaluation calls returned, divided by its divisor, and its counter
  is the number of those calls; and its events, its printed averages, its final
  accumulators and its error, if any, are the same as from any other starting values.
  So nothing of a mode enters the aggregate of another: in a completed run each of the
  three modes causes exactly the events that it causes when run on its own from fresh
  variables.
\<close>

theorem C8_modes_reset_accumulators:
  "(single_mode e l dir1 d st = (Inr st1, t1) \<longrightarrow>
      eval_single_ssim st1 =
        sum_list (map fst (recorded_values t1)) / of_int (int (shape0 d) * (int (shape1 d) - 1)) \<and>
      eval_single_psnr st1 =
        sum_list (map snd (recorded_values t1)) / of_int (int (shape0 d) * (int (shape1 d) - 1)) \<and>
      idx st1 = length (recorded_values t1)) \<and>
   (debevec_mode e c l dir2 d st = (Inr st2, t2) \<longrightarrow>
      eval_adaptive_ssim st2 = sum_list (map fst (recorded_values t2)) / real (shape0 d) \<and>
      eval_adaptive_psnr st2 = sum_list (map snd (recorded_values t2)) / real (shape0 d) \<and>
      idx st2 = length (recorded_values t2)) \<and>
   (hdrcnn_mode e c l dir3 d st = (Inr st3, t3) \<longrightarrow>
      eval_adaptive_ssim st3 = sum_list (map fst (recorded_values t3)) / real (shape0 d) \<and>
      eval_adaptive_psnr st3 = sum_list (map snd (recorded_values t3)) / real (shape0 d) \<and>
      idx st3 = length (recorded_values t3)) \<and>
   snd (single_mode e l dir1 d st') = snd (single_mode e l dir1 d st) \<and>
   map_sum id (\<lambda>s. (eval_single_ssim s, eval_single_psnr s, idx s)) (fst (single_mode e l dir1 d st')) =
   map_sum id (\<lambda>s. (eval_single_ssim s, eval_single_psnr s, idx s)) (fst (single_mode e l dir1 d st)) \<and>
   snd (debevec_mode e c l dir2 d st') = snd (debevec_mode e c l dir2 d st) \<and>
   map_sum id (\<lambda>s. (eval_adaptive_ssim s, eval_adaptive_psnr s, idx s)) (fst (debevec_mode e c l dir2 d st')) =
   map_sum id (\<lambda>s. (eval_adaptive_ssim s, eval_adaptive_psnr s, idx s)) (fst (debevec_mode e c l dir2 d st)) \<and>
   snd (hdrcnn_mode e c l dir3 d st') = snd (hdrcnn_mode e c l dir3 d st) \<and>
   map_sum id (\<lambda>s. (eval_adaptive_ssim s, eval_adaptive_psnr s, idx s)) (fst (hdrcnn_mode e c l dir3 d st')) =
   map_sum id (\<lambda>s. (eval_adaptive_ssim s, eval_adaptive_psnr s, idx s)) (fst (hdrcnn_mode e c l dir3 d st)) \<and>
   (main e a = (Inr u, t) \<longrightarrow>
      (\<exists>sd c d t0.
           model_dir a = Some sd \<and> configured e a = Inr c \<and>
           DataGenerator e (NUM_EXPOSURES c) = Inr d \<and>
           t = t0 @
             snd (single_mode e (LOSS_FUNC c) (osp_join (osp_join sd ''evaluation_output'') ''single'')
                    d locals0) @
             snd (debevec_mode e c (LOSS_FUNC c) (osp_join (osp_join sd ''evaluation_output'') ''adapt_debevec'')
                    d locals0) @
             snd (hdrcnn_mode e c (LOSS_FUNC c) (osp_join (osp_join sd ''evaluation_output'') ''adapt_hdrcnn'')
                    d locals0)))"
proof -
  have s: "single_mode e l dir1 d st = (Inr st1, t1) \<longrightarrow>
      eval_single_ssim st1 =
        sum_list (map fst (recorded_values t1)) / of_int (int (shape0 d) * (int (shape1 d) - 1)) \<and>
      eval_single_psnr st1 =
        sum_list (map snd (recorded_values t1)) / of_int (int (shape0 d) * (int (shape1 d) - 1)) \<and>
      idx st1 = length (recorded_values t1)"
    by (intro impI conjI)
       (erule single_mode_mean(2), erule single_mode_mean(3), erule single_mode_idx)
  have a: "debevec_mode e c l dir2 d st = (Inr st2, t2) \<longrightarrow>
      eval_adaptive_ssim st2 = sum_list (map fst (recorded_values t2)) / real (shape0 d) \<and>
      eval_adaptive_psnr st2 = sum_list (map snd (recorded_values t2)) / real (shape0 d) \<and>
      idx st2 = length (recorded_values t2)"
    by (intro impI conjI)
       (erule debevec_mode_mean(2), erule debevec_mode_mean(3), erule debevec_mode_idx)
  have h: "hdrcnn_mode e c l dir3 d st = (Inr st3, t3) \<longrightarrow>
      eval_adaptive_ssim st3 = sum_list (map fst (recorded_values t3)) / real (shape0 d) \<and>
      eval_adaptive_psnr st3 = sum_list (map snd (recorded_values t3)) / real (shape0 d) \<and>
      idx st3 = length (recorded_values t3)"
    by (intro impI conjI)
       (erule hdrcnn_mode_mean(2), erule hdrcnn_mode_mean(3), erule hdrcnn_mode_idx)
  have m: "main e a = (Inr u, t) \<longrightarrow>
      (\<exists>sd c d t0.
           model_dir a = Some sd \<and> configured e a = Inr c \<and>
           DataGenerator e (NUM_EXPOSURES c) = Inr d \<and>
           t = t0 @
             snd (single_mode e (LOSS_FUNC c) (osp_join (osp_join sd ''evaluation_output'') ''single'')
                    d locals0) @
             snd (debevec_mode e c (LOSS_FUNC c) (osp_join (osp_join sd ''evaluation_output'') ''adapt_debevec'')
                    d locals0) @
             snd (hdrcnn_mode e c (LOSS_FUNC c) (osp_join (osp_join sd ''evaluation_output'') ''adapt_hdrcnn'')
                    d locals0))"
    using modes_in_a_run by blast
  note i = modes_ignore_incoming_locals [of e l dir1 d st' st c dir2 dir3]
  from s a h i m show ?thesis by (intro conjI) blast+
qed

theorem C8_modes_reset_accumulators_witness:
  "fst (single_mode (ex_env ''SSIMLoss'' 2 2) ''SSIMLoss'' ''s'' (ex_data 2 3) locals0) =
     Inr \<lparr>eval_single_ssim = 3 / 2, eval_single_psnr = 1,
           eval_adaptive_ssim = 0, eval_adaptive_psnr = 0, idx = 4\<rparr> \<and>
   fst (debevec_mode (ex_env ''SSIMLoss'' 2 2) (ex_cfg ''SSIMLoss'' 2) ''SSIMLoss'' ''a'' (ex_data 2 3) locals0) =
     Inr \<lparr>eval_single_ssim = 0, eval_single_psnr = 0,
           eval_adaptive_ssim = 1 / 2, eval_adaptive_psnr = 2, idx = 2\<rparr> \<and>
   fst (hdrcnn_mode (ex_env ''SSIMLoss'' 2 2) (ex_cfg ''SSIMLoss'' 2) ''SSIMLoss'' ''h'' (ex_data 2 3) locals0) =
     Inr \<lparr>eval_single_ssim = 0, eval_single_psnr = 0,
           eval_adaptive_ssim = 1 / 2, eval_adaptive_psnr = 2, idx = 2\<rparr> \<and>
   fst (main (ex_env ''SSIMLoss'' 2 1) ex_args) = Inr () \<and>
   4 = length (recorded_values
     (snd (single_mode (ex_env ''SSIMLoss'' 2 2) ''SSIMLoss'' ''s'' (ex_data 2 3) locals0))) \<and>
   1 / 2 = sum_list (map fst (recorded_values
     (snd (debevec_mode (ex_env ''SSIMLoss'' 2 2) (ex_cfg ''SSIMLoss'' 2) ''SSIMLoss'' ''a'' (ex_data 2 3) locals0)))) /
     real (shape0 (ex_data 2 3)) \<and>
   2 = length (recorded_values
     (snd (hdrcnn_mode (ex_env ''SSIMLoss'' 2 2) (ex_cfg ''SSIMLoss'' 2) ''SSIMLoss'' ''h'' (ex_data 2 3) locals0))) \<and>
   (\<exists>sd c d t0.
      model_dir ex_args = Some sd \<and> configured (ex_env ''SSIMLoss'' 2 1) ex_args = Inr c \<and>
      DataGenerator (ex_env ''SSIMLoss'' 2 1) (NUM_EXPOSURES c) = Inr d \<and>
      snd (main (ex_env ''SSIMLoss'' 2 1) ex_args) = t0 @
        snd (single_mode (ex_env ''SSIMLoss'' 2 1) (LOSS_FUNC c)
               (osp_join (osp_join sd ''evaluation_output'') ''single'') d locals0) @
        snd (debevec_mode (ex_env ''SSIMLoss'' 2 1) c (LOSS_FUNC c)
               (osp_join (osp_join sd ''evaluation_output'') ''adapt_debevec'') d locals0) @
        snd (hdrcnn_mode (ex_env ''SSIMLoss'' 2 1) c (LOSS_FUNC c)
               (osp_join (osp_join sd ''evaluation_output'') ''adapt_hdrcnn'') d locals0))"
proof -
  have run: "fst (main (ex_env ''SSIMLoss'' 2 1) ex_args) = Inr ()"
    by (simp only: ex_run_2 fst_conv)
  note i1 = C8_modes_reset_accumulators
    [where e = "ex_env ''SSIMLoss'' 2 2" and l = "''SSIMLoss''" and d = "ex_data 2 3" and st = locals0
       and c = "ex_cfg ''SSIMLoss'' 2" and ?dir1.0 = "''s''" and ?dir2.0 = "''a''" and ?dir3.0 = "''h''"]
  from i1 [THEN conjunct1, THEN mp, OF pair_of_fst [OF ex_single_mode_22]]
  have a: "4 = length (recorded_values
     (snd (single_mode (ex_env ''SSIMLoss'' 2 2) ''SSIMLoss'' ''s'' (ex_data 2 3) locals0)))"
    unfolding locals.select_convs by blast
  from i1 [THEN conjunct2, THEN conjunct1, THEN mp, OF pair_of_fst [OF ex_debevec_mode_22]]
  have b: "1 / 2 = sum_list (map fst (recorded_values
     (snd (debevec_mode (ex_env ''SSIMLoss'' 2 2) (ex_cfg ''SSIMLoss'' 2) ''SSIMLoss'' ''a'' (ex_data 2 3) locals0)))) /
     real (shape0 (ex_data 2 3))"
    unfolding locals.select_convs by blast
  from i1 [THEN conjunct2, THEN conjunct2, THEN conjunct1, THEN mp, OF pair_of_fst [OF ex_hdrcnn_mode_22]]
  have c: "2 = length (recorded_values
     (snd (hdrcnn_mode (ex_env ''SSIMLoss'' 2 2) (ex_cfg ''SSIMLoss'' 2) ''SSIMLoss'' ''h'' (ex_data 2 3) locals0)))"
    unfolding locals.select_convs by blast
  note i2 = C8_modes_reset_accumulators
    [where e = "ex_env ''SSIMLoss'' 2 1" and a = ex_args and u = "()"
       and t = "snd (main (ex_env ''SSIMLoss'' 2 1) ex_args)"]
  have d: "\<exists>sd c d t0.
      model_dir ex_args = Some sd \<and> configured (ex_env ''SSIMLoss'' 2 1) ex_args = Inr c \<and>
      DataGenerator (ex_env ''SSIMLoss'' 2 1) (NUM_EXPOSURES c) = Inr d \<and>
      snd (main (ex_env ''SSIMLoss'' 2 1) ex_args) = t0 @
        snd (single_mode (ex_env ''SSIMLoss'' 2 1) (LOSS_FUNC c)
               (osp_join (osp_join sd ''evaluation_output'') ''single'') d locals0) @
        snd (debevec_mode (ex_env ''SSIMLoss'' 2 1) c (LOSS_FUNC c)
               (osp_join (osp_join sd ''evaluation_output'') ''adapt_debevec'') d locals0) @
        snd (hdrcnn_mode (ex_env ''SSIMLoss'' 2 1) c (LOSS_FUNC c)
               (osp_join (osp_join sd ''evaluation_output'') ''adapt_hdrcnn'') d locals0)"
    using i2 pair_of_fst [OF run] by blast
  from ex_single_mode_22 ex_debevec_mode_22 ex_hdrcnn_mode_22 run a b c d show ?thesis by blast
qed

lemma for_io_Inr_body:
  assumes "for_io body xs st = (Inr st', t)" and "x \<in> set xs"
  shows "\<exists>s1 s2 t1. body x s1 = (Inr s2, t1)"
  using assms
proof (induction xs arbitrary: st t)
  case Nil
  then show ?case by simp
next
  case (Cons y ys)
  from Cons.prems(1) obtain st1 t1 t2 where
    b: "body y st = (Inr st1, t1)" and r: "for_io body ys st1 = (Inr st', t2)"
    unfolding for_io_Cons_Inr_iff by blast
  show ?case
  proof (cases "x = y")
    case True
    then show ?thesis using b by blast
  next
    case False
    then have "x \<in> set ys" using Cons.prems(2) by simp
    from Cons.IH [OF r this] show ?thesis .
  qed
qed

lemma debevec_mode_needs_split:
  assumes "debevec_mode e c l dir d st0 = (Inr st', t)"
  shows "\<exists>tr ts. drawn_split e dir 0 (NUM_EXPOSURES c) = Inr (tr, ts)"
proof -
  from debevec_mode_mean(1) [OF assms] have s: "0 \<in> set [0 ..< shape0 d]" by simp
  from assms obtain stl tl where
    loops: "for_io (debevec_body e c l dir d) [0 ..< shape0 d]
              (st0\<lparr>eval_adaptive_ssim := 0, eval_adaptive_psnr := 0, idx := 0\<rparr>) = (Inr stl, tl)"
    by (auto simp: debevec_mode_def then_io_Inr_iff)
  from for_io_Inr_body [OF loops s] obtain s1 s2 t1 where
    "debevec_body e c l dir d 0 s1 = (Inr s2, t1)" by blast
  from debevec_body_Inr [OF this] show ?thesis by blast
qed

lemma small_k_never_completes:
  assumes "configured e a = Inr c" and "NUM_EXPOSURES c < 2"
  shows "\<exists>err. fst (main e a) = Inl err"
proof (cases "fst (main e a)")
  case (Inl err)
  then show ?thesis by blast
next
  case (Inr u)
  then have "main e a = (Inr u, snd (main e a))" by (simp add: pair_of_fst)
  from main_Inr [OF this] obtain sd c' d st1 st2 t2 where
    c': "configured e a = Inr c'" and
    m2: "debevec_mode e c' (LOSS_FUNC c') (osp_join (osp_join sd ''evaluation_output'') ''adapt_debevec'')
             d st1 = (Inr st2, t2)" by blast
  from c' assms(1) have "c' = c" by simp
  with debevec_mode_needs_split [OF m2] assms(2)
    drawn_split_small [of "NUM_EXPOSURES c" e "osp_join (osp_join sd ''evaluation_output'') ''adapt_debevec''" 0]
  show ?thesis by auto
qed

lemma ex_run_0:
  "main (ex_env ''SSIMLoss'' 1 0) ex_args =
   (Inl ZeroDivisionError,
    [Print ''--- Evaluating on meta-test set ---'',
     MakeDirs ''out/evaluation_output'',
     MakeDirs ''out/evaluation_output/single'',
     MakeDirs ''out/evaluation_output/adapt_debevec'',
     MakeDirs ''out/evaluation_output/adapt_hdrcnn'',
     MakeDirs ''out/evaluation_output'',
     CreateLogger ''out/evaluation_output'', LogInfo ''GPU name -> gpu'',
     LogInfo ''GPU feat -> props'', LoadCfg None, GetLoss ''SSIMLoss'',
     TorchLoad ''out/model_best.pth.tar'',
     Print ''During training: Best Epoch, Best SSIM'',
     Print ''Loading pre-trained model from --> out/model_best.pth.tar'',
     LoadStateDict 0,
     Print ''Successfully loaded pre-trained model from --> out/model_best.pth.tar'',
     LoadData 1, Print ''Performing Single-Shot Evaluation''])"
  by (simp add: run_eval ex_eval)

text \<open>
  Claim C6 fails on the code as stated: the script does not check K. With K = 1 and one
  scene the run reads the checkpoint and the data, evaluates the single-shot mode and
  prints its averages, and only then ends with the \<^verbatim>\<open>ValueError\<close> that the split of
  the first scene raises; with K = 1 and no scene it ends with \<^verbatim>\<open>ZeroDivisionError\<close> in
  the single-shot mode before any split. Neither is the configuration error.
\<close>

theorem C6_counterexample_no_check_of_K:
  "NUM_EXPOSURES (ex_cfg ''SSIMLoss'' 1) < 2 \<and>
   configured (ex_env ''SSIMLoss'' 1 1) ex_args = Inr (ex_cfg ''SSIMLoss'' 1) \<and>
   fst (main (ex_env ''SSIMLoss'' 1 1) ex_args) =
     Inl (ValueError ''test_size should be smaller than the number of samples'') \<and>
   LoadData 1 \<in> set (snd (main (ex_env ''SSIMLoss'' 1 1) ex_args)) \<and>
   EvalSingle
      \<lparr>s_loss = ''SSIMLoss'', input_test_image = \<lparr>shape = [1], pix = [1]\<rparr>,
         input_test_label = \<lparr>shape = [1], pix = [0]\<rparr>, s_idx = 0,
         s_visualize_dir = ''out/evaluation_output/single''\<rparr>
      (Inr (0, 1)) \<in> set (snd (main (ex_env ''SSIMLoss'' 1 1) ex_args)) \<and>
   PrintAvg ''[Evaluation Results] Average Single-Shot Evaluation PSNR'' 1
      \<in> set (snd (main (ex_env ''SSIMLoss'' 1 1) ex_args)) \<and>
   configured (ex_env ''SSIMLoss'' 1 0) ex_args = Inr (ex_cfg ''SSIMLoss'' 1) \<and>
   fst (main (ex_env ''SSIMLoss'' 1 0) ex_args) = Inl ZeroDivisionError"
  unfolding ex_run_1 ex_run_0
  by (simp add: ex_cfg_def ex_env_def ex_args_def configured_def)

text \<open>
  Claim C6 as amended. For every K below 2 the split of every scene raises
  \<^verbatim>\<open>ValueError\<close> (the test size 1 is not smaller than the number of samples), so a run
  whose configuration has such a K never completes; the error comes from the split of
  the first scene in the Debevec mode, unless an earlier error ends the run. For every
  K from 2 on the split succeeds, with K - 1 (at least one) support indices and one
  query index.
\<close>

theorem C6_small_K_fails_at_the_split:
  "(k < 2 \<longrightarrow> (\<exists>msg. drawn_split e dir s k = Inl (ValueError msg))) \<and>
   (configured e a = Inr c \<and> NUM_EXPOSURES c < 2 \<longrightarrow> (\<exists>err. fst (main e a) = Inl err)) \<and>
   (2 \<le> k \<longrightarrow>
      (\<exists>tr ts. drawn_split e dir s k = Inr (tr, ts) \<and> tr \<noteq> [] \<and>
         int (length tr) = k - 1 \<and> length ts = 1))"
proof (intro conjI impI)
  assume "k < 2"
  then show "\<exists>msg. drawn_split e dir s k = Inl (ValueError msg)"
    by (rule drawn_split_small)
next
  assume "configured e a = Inr c \<and> NUM_EXPOSURES c < 2"
  then show "\<exists>err. fst (main e a) = Inl err"
    using small_k_never_completes by blast
next
  assume k: "2 \<le> k"
  from drawn_split_ok [OF k, of e dir s] obtain tr ts where
    sp: "drawn_split e dir s k = Inr (tr, ts)" by blast
  from drawn_split_Inr [OF sp] sp
  show "\<exists>tr ts. drawn_split e dir s k = Inr (tr, ts) \<and> tr \<noteq> [] \<and>
         int (length tr) = k - 1 \<and> length ts = 1"
    by blast
qed

theorem C6_small_K_fails_at_the_split_witness:
  "(1::int) < 2 \<and>
   configured (ex_env ''SSIMLoss'' 1 1) ex_args = Inr (ex_cfg ''SSIMLoss'' 1) \<and>
   NUM_EXPOSURES (ex_cfg ''SSIMLoss'' 1) < 2 \<and> (2::int) \<le> 4 \<and>
   (\<exists>msg. drawn_split (ex_env ''SSIMLoss'' 1 1) ''a'' 0 1 = Inl (ValueError msg)) \<and>
   (\<exists>err. fst (main (ex_env ''SSIMLoss'' 1 1) ex_args) = Inl err) \<and>
   (\<exists>tr ts. drawn_split (ex_env ''SSIMLoss'' 4 1) ''a'' 0 4 = Inr (tr, ts) \<and> tr \<noteq> [] \<and>
      int (length tr) = 4 - 1 \<and> length ts = 1)"
proof -
  have a: "(1::int) < 2" by simp
  have b: "configured (ex_env ''SSIMLoss'' 1 1) ex_args = Inr (ex_cfg ''SSIMLoss'' 1) \<and>
       NUM_EXPOSURES (ex_cfg ''SSIMLoss'' 1) < 2"
    by (simp add: ex_cfg_def ex_env_def ex_args_def configured_def)
  have c: "(2::int) \<le> 4" by simp
  note i1 = C6_small_K_fails_at_the_split
    [where k = 1 and e = "ex_env ''SSIMLoss'' 1 1" and dir = "''a''" and s = 0 and a = ex_args
       and c = "ex_cfg ''SSIMLoss'' 1"]
  note i2 = C6_small_K_fails_at_the_split
    [where k = 4 and e = "ex_env ''SSIMLoss'' 4 1" and dir = "''a''" and s = 0]
  from i1 [THEN conjunct1, THEN mp, OF a] i1 [THEN conjunct2, THEN conjunct1, THEN mp, OF b]
    i2 [THEN conjunct2, THEN conjunct2, THEN mp, OF c] a b c
  show ?thesis by blast
qed

end
